theory Spec2Isabelle
  imports Complex_Main "HOL-Library.AList" "HOL-Library.Multiset" "HOL-Library.Product_Lexorder"
begin

section \<open>Python strings\<close>

text \<open>
  A Python \<open>str\<close> is a sequence of Unicode code points, so a string is a list of
  natural numbers. ASCII literals are written \<open>ascii ''...''\<close>; literals with
  Cyrillic letters are written as their code points, with a transliteration beside
  them. The character classes below cover the Latin and Cyrillic scripts the
  program's texts are written in: \<open>is_digit\<close> is the ASCII digits (the \<open>\\d\<close>
  of the regular expressions also accepts the decimal digits of other scripts),
  \<open>is_space\<close> is the white space of \<open>str.strip\<close> and \<open>\\s\<close>, and
  \<open>lower_char\<close> is \<open>str.lower\<close> on Latin, Latin-1 and Cyrillic capitals.
\<close>

type_synonym pystr = "nat list"

definition ascii :: "string \<Rightarrow> pystr" where
  "ascii s = map of_char s"

definition is_digit :: "nat \<Rightarrow> bool" where
  "is_digit c = (48 \<le> c \<and> c \<le> 57)"

definition is_space :: "nat \<Rightarrow> bool" where
  "is_space c =
     ((9 \<le> c \<and> c \<le> 13) \<or> (28 \<le> c \<and> c \<le> 32) \<or> c = 133 \<or> c = 160 \<or> c = 5760
      \<or> (8192 \<le> c \<and> c \<le> 8202) \<or> c = 8232 \<or> c = 8233 \<or> c = 8239 \<or> c = 8287
      \<or> c = 12288)"

definition lower_char :: "nat \<Rightarrow> nat" where
  "lower_char c =
     (if 65 \<le> c \<and> c \<le> 90 then c + 32
      else if 192 \<le> c \<and> c \<le> 222 \<and> c \<noteq> 215 then c + 32
      else if 1040 \<le> c \<and> c \<le> 1071 then c + 32
      else if 1024 \<le> c \<and> c \<le> 1039 then c + 80
      else c)"

definition lower :: "pystr \<Rightarrow> pystr" where
  "lower s = map lower_char s"

text \<open>\<open>sub in s\<close>: the substring test.\<close>

fun is_prefix :: "pystr \<Rightarrow> pystr \<Rightarrow> bool" where
  "is_prefix [] s = True"
| "is_prefix (x # xs) [] = False"
| "is_prefix (x # xs) (y # ys) = (x = y \<and> is_prefix xs ys)"

fun py_in :: "pystr \<Rightarrow> pystr \<Rightarrow> bool" where
  "py_in sub [] = (sub = [])"
| "py_in sub (c # cs) = (is_prefix sub (c # cs) \<or> py_in sub cs)"

text \<open>\<open>any(keyword in s for keyword in keywords)\<close>.\<close>

definition any_in :: "pystr list \<Rightarrow> pystr \<Rightarrow> bool" where
  "any_in keywords s = list_ex (\<lambda>keyword. py_in keyword s) keywords"





section \<open>The curriculum extractor (final\_parser.py, extract\_curriculum\_data)\<close>

record course =
  name :: pystr
  credits :: nat
  hours :: nat
  semester :: nat
  course_type :: pystr

record sem_bucket =
  mandatory :: "course list"
  elective :: "course list"

text \<open>
  The dictionary \<open>semesters\<close> is an association list in insertion order;
  \<open>map_of\<close> looks a key up and \<open>AList.update\<close> stores a value (in place when
  the key is present, at the end otherwise), as a Python dict does.
\<close>

record curriculum =
  program_name :: pystr
  semesters :: "(nat \<times> sem_bucket) list"
  elective_courses :: "course list"
  mandatory_courses :: "course list"
  all_courses :: "course list"

definition empty_bucket :: sem_bucket where
  "empty_bucket = \<lparr>mandatory = [], elective = []\<rparr>"

definition empty_curriculum :: curriculum where
  "empty_curriculum =
     \<lparr>program_name = [], semesters = [], elective_courses = [],
      mandatory_courses = [], all_courses = []\<rparr>"

subsection \<open>The regular expressions\<close>

text \<open>
  \<open>re.search(r'(\\d+)\\s*semestr', line)\<close>, returning group 1. The search takes the
  leftmost start; from a start the greedy \<open>\\d+\<close> and \<open>\\s*\<close> can only take their
  whole runs, since giving a character back leaves a digit or a blank where the
  literal must begin.
\<close>

definition kw_semestr :: pystr where
  "kw_semestr = [1089, 1077, 1084, 1077, 1089, 1090, 1088]" \<comment> \<open>semestr\<close>

fun semester_search :: "pystr \<Rightarrow> pystr option" where
  "semester_search [] = None"
| "semester_search (c # cs) =
     (if is_digit c \<and>
         is_prefix kw_semestr (dropWhile is_space (dropWhile is_digit (c # cs)))
      then Some (takeWhile is_digit (c # cs))
      else semester_search cs)"










subsection \<open>The scan of the lines\<close>





definition s_mandatory :: pystr where
  "s_mandatory = ascii ''mandatory''"

definition s_elective :: pystr where
  "s_elective = ascii ''elective''"


definition init_semester :: "nat \<Rightarrow> curriculum \<Rightarrow> curriculum" where
  "init_semester n c =
     (if map_of (semesters c) n = None
      then c\<lparr>semesters := AList.update n empty_bucket (semesters c)\<rparr>
      else c)"

definition bucket_of :: "curriculum \<Rightarrow> nat \<Rightarrow> sem_bucket" where
  "bucket_of c n = (case map_of (semesters c) n of Some b \<Rightarrow> b | None \<Rightarrow> empty_bucket)"


definition add_course :: "course \<Rightarrow> curriculum \<Rightarrow> curriculum" where
  "add_course course_info c0 =
     (let c = init_semester (semester course_info) c0;
          b = bucket_of c (semester course_info)
      in if course_type course_info = s_mandatory
         then c\<lparr>semesters := AList.update (semester course_info)
                    (b\<lparr>mandatory := mandatory b @ [course_info]\<rparr>) (semesters c),
                mandatory_courses := mandatory_courses c @ [course_info],
                all_courses := all_courses c @ [course_info]\<rparr>
         else c\<lparr>semesters := AList.update (semester course_info)
                    (b\<lparr>elective := elective b @ [course_info]\<rparr>) (semesters c),
                elective_courses := elective_courses c @ [course_info],
                all_courses := all_courses c @ [course_info]\<rparr>)"




subsection \<open>Notions used to state the extractor's properties\<close>






section \<open>The subject categorizer (final\_parser.py, categorize\_subjects)\<close>

text \<open>
  The registry \<open>categories\<close> is a dict literal; its iteration order is the order
  of the literal, so it is an association list.
\<close>

record category =
  cat_keywords :: "pystr list"
  cat_description :: pystr

definition categories :: "(pystr \<times> category) list" where
  "categories =
     [
      (ascii ''machine_learning'', \<comment> \<open>Mashinnoe obuchenie i II\<close>
       \<lparr>cat_keywords =
          [
           [1084, 1072, 1096, 1080, 1085, 1085, 1086, 1077, 32, 1086, 1073, 1091, 1095, 1077, 1085, 1080, 1077], \<comment> \<open>mashinnoe obuchenie\<close>
           ascii ''machine learning'',
           ascii ''ml'',
           [1075, 1083, 1091, 1073, 1086, 1082, 1086, 1077, 32, 1086, 1073, 1091, 1095, 1077, 1085, 1080, 1077], \<comment> \<open>glubokoe obuchenie\<close>
           ascii ''deep learning'',
           [1085, 1077, 1081, 1088, 1086, 1085, 1085, 1099, 1077, 32, 1089, 1077, 1090, 1080], \<comment> \<open>nejronnye seti\<close>
           ascii ''neural networks'',
           [1072, 1074, 1090, 1086, 1084, 1072, 1090, 1080, 1095, 1077, 1089, 1082, 1086, 1077] \<comment> \<open>avtomaticheskoe\<close>
          ],
        cat_description = [1052, 1072, 1096, 1080, 1085, 1085, 1086, 1077, 32, 1086, 1073, 1091, 1095, 1077, 1085, 1080, 1077, 32, 1080, 32, 1048, 1048]\<rparr>),
      (ascii ''programming'', \<comment> \<open>Programmirovanie i razrabotka\<close>
       \<lparr>cat_keywords =
          [
           [1087, 1088, 1086, 1075, 1088, 1072, 1084, 1084, 1080, 1088, 1086, 1074, 1072, 1085, 1080, 1077], \<comment> \<open>programmirovanie\<close>
           ascii ''python'',
           ascii ''c++'',
           [1088, 1072, 1079, 1088, 1072, 1073, 1086, 1090, 1082, 1072], \<comment> \<open>razrabotka\<close>
           [1074, 1077, 1073, 45, 1087, 1088, 1080, 1083, 1086, 1078, 1077, 1085, 1080, 1081], \<comment> \<open>veb-prilozhenij\<close>
           [1084, 1080, 1082, 1088, 1086, 1089, 1077, 1088, 1074, 1080, 1089, 1086, 1074], \<comment> \<open>mikroservisov\<close>
           ascii ''backend'',
           [1103, 1079, 1099, 1082, 1080, 32, 1087, 1088, 1086, 1075, 1088, 1072, 1084, 1084, 1080, 1088, 1086, 1074, 1072, 1085, 1080, 1103] \<comment> \<open>yazyki programmirovaniya\<close>
          ],
        cat_description = [1055, 1088, 1086, 1075, 1088, 1072, 1084, 1084, 1080, 1088, 1086, 1074, 1072, 1085, 1080, 1077, 32, 1080, 32, 1088, 1072, 1079, 1088, 1072, 1073, 1086, 1090, 1082, 1072]\<rparr>),
      (ascii ''computer_vision'', \<comment> \<open>Komp'yuternoe zrenie\<close>
       \<lparr>cat_keywords =
          [
           [1082, 1086, 1084, 1087, 1100, 1102, 1090, 1077, 1088, 1085, 1086, 1077, 32, 1079, 1088, 1077, 1085, 1080, 1077], \<comment> \<open>komp'yuternoe zrenie\<close>
           ascii ''computer vision'',
           [1080, 1079, 1086, 1073, 1088, 1072, 1078, 1077, 1085, 1080, 1081], \<comment> \<open>izobrazhenij\<close>
           [1086, 1073, 1088, 1072, 1073, 1086, 1090, 1082, 1072, 32, 1080, 1079, 1086, 1073, 1088, 1072, 1078, 1077, 1085, 1080, 1081], \<comment> \<open>obrabotka izobrazhenij\<close>
           [1075, 1077, 1085, 1077, 1088, 1072, 1094, 1080, 1103, 32, 1080, 1079, 1086, 1073, 1088, 1072, 1078, 1077, 1085, 1080, 1081], \<comment> \<open>generaciya izobrazhenij\<close>
           [1084, 1091, 1083, 1100, 1090, 1080, 1084, 1086, 1076, 1072, 1083, 1100, 1085, 1099, 1077] \<comment> \<open>mul'timodal'nye\<close>
          ],
        cat_description = [1050, 1086, 1084, 1087, 1100, 1102, 1090, 1077, 1088, 1085, 1086, 1077, 32, 1079, 1088, 1077, 1085, 1080, 1077]\<rparr>),
      (ascii ''nlp'', \<comment> \<open>Obrabotka estestvennogo yazyka\<close>
       \<lparr>cat_keywords =
          [
           [1077, 1089, 1090, 1077, 1089, 1090, 1074, 1077, 1085, 1085, 1086, 1075, 1086, 32, 1103, 1079, 1099, 1082, 1072], \<comment> \<open>estestvennogo yazyka\<close>
           ascii ''nlp'',
           [1086, 1073, 1088, 1072, 1073, 1086, 1090, 1082, 1072, 32, 1090, 1077, 1082, 1089, 1090, 1086, 1074], \<comment> \<open>obrabotka tekstov\<close>
           [1103, 1079, 1099, 1082, 1086, 1074, 1099, 1077, 32, 1084, 1086, 1076, 1077, 1083, 1080], \<comment> \<open>yazykovye modeli\<close>
           ascii ''llm'',
           [1075, 1077, 1085, 1077, 1088, 1072, 1090, 1080, 1074, 1085, 1099, 1077, 32, 1084, 1086, 1076, 1077, 1083, 1080], \<comment> \<open>generativnye modeli\<close>
           [1088, 1072, 1079, 1075, 1086, 1074, 1086, 1088, 1085, 1086, 1075, 1086] \<comment> \<open>razgovornogo\<close>
          ],
        cat_description = [1054, 1073, 1088, 1072, 1073, 1086, 1090, 1082, 1072, 32, 1077, 1089, 1090, 1077, 1089, 1090, 1074, 1077, 1085, 1085, 1086, 1075, 1086, 32, 1103, 1079, 1099, 1082, 1072]\<rparr>),
      (ascii ''data_science'', \<comment> \<open>Nauka o dannyh\<close>
       \<lparr>cat_keywords =
          [
           [1076, 1072, 1085, 1085, 1099, 1077], \<comment> \<open>dannye\<close>
           ascii ''data'',
           [1089, 1090, 1072, 1090, 1080, 1089, 1090, 1080, 1082, 1072], \<comment> \<open>statistika\<close>
           [1072, 1085, 1072, 1083, 1080, 1079], \<comment> \<open>analiz\<close>
           [1074, 1080, 1079, 1091, 1072, 1083, 1080, 1079, 1072, 1094, 1080, 1103], \<comment> \<open>vizualizaciya\<close>
           [1074, 1088, 1077, 1084, 1077, 1085, 1085, 1099, 1077, 32, 1088, 1103, 1076, 1099], \<comment> \<open>vremennye ryady\<close>
           ascii ''big data'',
           [1073, 1086, 1083, 1100, 1096, 1080, 1093, 32, 1076, 1072, 1085, 1085, 1099, 1093] \<comment> \<open>bol'shih dannyh\<close>
          ],
        cat_description = [1053, 1072, 1091, 1082, 1072, 32, 1086, 32, 1076, 1072, 1085, 1085, 1099, 1093]\<rparr>),
      (ascii ''systems'', \<comment> \<open>Sistemy i infrastruktura\<close>
       \<lparr>cat_keywords =
          [
           [1089, 1080, 1089, 1090, 1077, 1084, 1099], \<comment> \<open>sistemy\<close>
           ascii ''mlops'',
           ascii ''devops'',
           [1082, 1086, 1085, 1090, 1077, 1081, 1085, 1077, 1088, 1080, 1079, 1072, 1094, 1080, 1103], \<comment> \<open>kontejnerizaciya\<close>
           ascii ''gpu'',
           ascii ''unix'',
           [1073, 1072, 1079, 1099, 32, 1076, 1072, 1085, 1085, 1099, 1093], \<comment> \<open>bazy dannyh\<close>
           [1080, 1085, 1092, 1088, 1072, 1089, 1090, 1088, 1091, 1082, 1090, 1091, 1088, 1072], \<comment> \<open>infrastruktura\<close>
           [1072, 1088, 1093, 1080, 1090, 1077, 1082, 1090, 1091, 1088, 1072] \<comment> \<open>arhitektura\<close>
          ],
        cat_description = [1057, 1080, 1089, 1090, 1077, 1084, 1099, 32, 1080, 32, 1080, 1085, 1092, 1088, 1072, 1089, 1090, 1088, 1091, 1082, 1090, 1091, 1088, 1072]\<rparr>),
      (ascii ''product'', \<comment> \<open>Produktovoe upravlenie\<close>
       \<lparr>cat_keywords =
          [
           [1087, 1088, 1086, 1076, 1091, 1082, 1090], \<comment> \<open>produkt\<close>
           ascii ''product'',
           [1073, 1080, 1079, 1085, 1077, 1089], \<comment> \<open>biznes\<close>
           [1091, 1087, 1088, 1072, 1074, 1083, 1077, 1085, 1080, 1077], \<comment> \<open>upravlenie\<close>
           [1087, 1088, 1086, 1077, 1082, 1090], \<comment> \<open>proekt\<close>
           [1072, 1085, 1072, 1083, 1080, 1090, 1080, 1082, 1072], \<comment> \<open>analitika\<close>
           [1076, 1080, 1079, 1072, 1081, 1085], \<comment> \<open>dizajn\<close>
           [1087, 1088, 1086, 1090, 1086, 1090, 1080, 1087, 1080, 1088, 1086, 1074, 1072, 1085, 1080, 1077] \<comment> \<open>prototipirovanie\<close>
          ],
        cat_description = [1055, 1088, 1086, 1076, 1091, 1082, 1090, 1086, 1074, 1086, 1077, 32, 1091, 1087, 1088, 1072, 1074, 1083, 1077, 1085, 1080, 1077]\<rparr>)
     ]"

definition s_other :: pystr where
  "s_other = ascii ''other''"

text \<open>
  The inner loop over \<open>categories.items()\<close>: the first category one of whose keywords
  occurs in the lowercased course name, \<open>None\<close> when the loop ends with
  \<open>assigned\<close> still false.
\<close>

fun assign_category :: "(pystr \<times> category) list \<Rightarrow> pystr \<Rightarrow> pystr option" where
  "assign_category [] course_name = None"
| "assign_category ((category, category_data) # rest) course_name =
     (if any_in (cat_keywords category_data) course_name then Some category
      else assign_category rest course_name)"

text \<open>
  \<open>categorized[key].append(course)\<close>. The key is one of those the dictionary was
  created with (lemma \<open>bucket_key_in_keys\<close>), so the subscript never raises.
\<close>

definition append_to :: "pystr \<Rightarrow> course \<Rightarrow> (pystr \<times> course list) list \<Rightarrow> (pystr \<times> course list) list" where
  "append_to key course categorized = AList.map_entry key (\<lambda>l. l @ [course]) categorized"

definition categorize_course :: "(pystr \<times> course list) list \<Rightarrow> course \<Rightarrow> (pystr \<times> course list) list" where
  "categorize_course categorized course =
     (case assign_category categories (lower (name course)) of
        Some category \<Rightarrow> append_to category course categorized
      | None \<Rightarrow> append_to s_other course categorized)"

definition categorize_subjects :: "curriculum \<Rightarrow> (pystr \<times> course list) list" where
  "categorize_subjects curriculum =
     foldl categorize_course
       (AList.update s_other [] (map (\<lambda>(category, category_data). (category, [])) categories))
       (all_courses curriculum)"

subsection \<open>Notions used to state the categorizer's properties\<close>

text \<open>
  A keyword hits a name when it occurs in it without regard to case; the bucket of
  a course is the earliest category of the registry with a keyword that hits its
  name, and the catch-all otherwise.
\<close>

definition hits :: "pystr \<Rightarrow> pystr \<Rightarrow> bool" where
  "hits keyword s = py_in (lower keyword) (lower s)"

definition bucket_key :: "course \<Rightarrow> pystr" where
  "bucket_key c =
     (case find (\<lambda>(category, category_data). list_ex (\<lambda>keyword. hits keyword (name c))
                   (cat_keywords category_data)) categories of
        Some (category, category_data) \<Rightarrow> category
      | None \<Rightarrow> s_other)"

definition bucket :: "(pystr \<times> course list) list \<Rightarrow> pystr \<Rightarrow> course list" where
  "bucket categorized key = (case map_of categorized key of Some l \<Rightarrow> l | None \<Rightarrow> [])"

definition category_keys :: "pystr list" where
  "category_keys =
     [ascii ''machine_learning'', ascii ''programming'', ascii ''computer_vision'', ascii ''nlp'',
      ascii ''data_science'', ascii ''systems'', ascii ''product'', ascii ''other'']"

subsection \<open>A curriculum of three courses\<close>





section \<open>The profile classifier and the recommendation engine (final\_parser.py, generate\_recommendations)\<close>

record profile =
  profile_keywords :: "pystr list"
  preferences :: "pystr list"
  description :: pystr

text \<open>The registry \<open>user_profiles\<close>, a dict literal, in the order of the literal.\<close>

definition user_profiles :: "(pystr \<times> profile) list" where
  "user_profiles =
     [
      (ascii ''fullstack_developer'', \<comment> \<open>Fullstack razrabotchik\<close>
       \<lparr>profile_keywords =
          [
           [1092, 1091, 1083, 1083, 1089, 1090, 1077, 1082], \<comment> \<open>fullstek\<close>
           ascii ''fullstack'',
           ascii ''full-stack'',
           ascii ''full stack'',
           [1088, 1072, 1079, 1088, 1072, 1073, 1086, 1090, 1095, 1080, 1082], \<comment> \<open>razrabotchik\<close>
           [1087, 1088, 1086, 1075, 1088, 1072, 1084, 1084, 1080, 1089, 1090], \<comment> \<open>programmist\<close>
           ascii ''developer'',
           ascii ''programmer'',
           [1092, 1088, 1086, 1085, 1090, 1077, 1085, 1076], \<comment> \<open>frontend\<close>
           ascii ''frontend'',
           ascii ''front-end'',
           [1073, 1101, 1082, 1077, 1085, 1076], \<comment> \<open>bekend\<close>
           ascii ''backend'',
           ascii ''back-end'',
           [1089, 1077, 1088, 1074, 1080, 1089, 1099], \<comment> \<open>servisy\<close>
           ascii ''services'',
           [1074, 1077, 1073], \<comment> \<open>veb\<close>
           ascii ''web'',
           [1087, 1088, 1080, 1083, 1086, 1078, 1077, 1085, 1080, 1103], \<comment> \<open>prilozheniya\<close>
           ascii ''applications'',
           [1080, 1085, 1092, 1088, 1072, 1089, 1090, 1088, 1091, 1082, 1090, 1091, 1088, 1072], \<comment> \<open>infrastruktura\<close>
           ascii ''infrastructure'',
           ascii ''devops'',
           ascii ''python'',
           ascii ''javascript'',
           ascii ''react'',
           ascii ''node'',
           ascii ''django'',
           ascii ''flask'',
           ascii ''api'',
           ascii ''rest'',
           [1084, 1080, 1082, 1088, 1086, 1089, 1077, 1088, 1074, 1080, 1089, 1099], \<comment> \<open>mikroservisy\<close>
           ascii ''microservices'',
           [1103, 1085, 1076, 1077, 1082, 1089], \<comment> \<open>yandeks\<close>
           ascii ''yandex'',
           [1086, 1087, 1099, 1090], \<comment> \<open>opyt\<close>
           ascii ''experience'',
           [1088, 1072, 1073, 1086, 1090, 1072, 1102], \<comment> \<open>rabotayu\<close>
           [1088, 1072, 1073, 1086, 1090, 1072, 1083] \<comment> \<open>rabotal\<close>
          ],
        preferences = [ascii ''programming'', ascii ''systems'', ascii ''machine_learning''],
        description = [70, 117, 108, 108, 115, 116, 97, 99, 107, 32, 1088, 1072, 1079, 1088, 1072, 1073, 1086, 1090, 1095, 1080, 1082]\<rparr>),
      (ascii ''ml_engineer'', \<comment> \<open>ML Engineer\<close>
       \<lparr>profile_keywords =
          [
           ascii ''ml engineer'',
           [1084, 1072, 1096, 1080, 1085, 1085, 1086, 1077, 32, 1086, 1073, 1091, 1095, 1077, 1085, 1080, 1077], \<comment> \<open>mashinnoe obuchenie\<close>
           ascii ''machine learning'',
           ascii ''ml'',
           [1084, 1086, 1076, 1077, 1083, 1080], \<comment> \<open>modeli\<close>
           ascii ''models'',
           [1072, 1083, 1075, 1086, 1088, 1080, 1090, 1084, 1099], \<comment> \<open>algoritmy\<close>
           ascii ''algorithms'',
           [1085, 1077, 1081, 1088, 1086, 1085, 1085, 1099, 1077, 32, 1089, 1077, 1090, 1080], \<comment> \<open>nejronnye seti\<close>
           ascii ''deep learning'',
           [1075, 1083, 1091, 1073, 1086, 1082, 1086, 1077, 32, 1086, 1073, 1091, 1095, 1077, 1085, 1080, 1077], \<comment> \<open>glubokoe obuchenie\<close>
           ascii ''tensorflow'',
           ascii ''pytorch'',
           ascii ''sklearn'',
           ascii ''data science'',
           ascii ''ai'',
           ascii ''artificial intelligence'',
           ascii ''kaggle'',
           [1089, 1086, 1088, 1077, 1074, 1085, 1086, 1074, 1072, 1085, 1080, 1103], \<comment> \<open>sorevnovaniya\<close>
           ascii ''competitions''
          ],
        preferences = [ascii ''machine_learning'', ascii ''programming'', ascii ''systems''],
        description = ascii ''ML Engineer''\<rparr>),
      (ascii ''data_scientist'', \<comment> \<open>Data Scientist\<close>
       \<lparr>profile_keywords =
          [
           ascii ''data scientist'',
           [1076, 1072, 1085, 1085, 1099, 1077], \<comment> \<open>dannye\<close>
           ascii ''data'',
           [1072, 1085, 1072, 1083, 1080, 1090, 1080, 1082], \<comment> \<open>analitik\<close>
           ascii ''analyst'',
           [1089, 1090, 1072, 1090, 1080, 1089, 1090, 1080, 1082, 1072], \<comment> \<open>statistika\<close>
           ascii ''statistics'',
           [1072, 1085, 1072, 1083, 1080, 1079, 32, 1076, 1072, 1085, 1085, 1099, 1093], \<comment> \<open>analiz dannyh\<close>
           ascii ''data analysis'',
           ascii ''pandas'',
           ascii ''numpy'',
           ascii ''jupyter'',
           ascii ''visualization'',
           [1074, 1080, 1079, 1091, 1072, 1083, 1080, 1079, 1072, 1094, 1080, 1103], \<comment> \<open>vizualizaciya\<close>
           ascii ''bi'',
           ascii ''business intelligence'',
           [1076, 1072, 1096, 1073, 1086, 1088, 1076, 1099], \<comment> \<open>dashbordy\<close>
           ascii ''dashboards''
          ],
        preferences = [ascii ''data_science'', ascii ''machine_learning'', ascii ''programming''],
        description = ascii ''Data Scientist''\<rparr>),
      (ascii ''cv_specialist'', \<comment> \<open>Computer Vision specialist\<close>
       \<lparr>profile_keywords =
          [
           ascii ''computer vision'',
           [1082, 1086, 1084, 1087, 1100, 1102, 1090, 1077, 1088, 1085, 1086, 1077, 32, 1079, 1088, 1077, 1085, 1080, 1077], \<comment> \<open>komp'yuternoe zrenie\<close>
           ascii ''cv'',
           [1080, 1079, 1086, 1073, 1088, 1072, 1078, 1077, 1085, 1080, 1103], \<comment> \<open>izobrazheniya\<close>
           ascii ''images'',
           ascii ''opencv'',
           [1086, 1073, 1088, 1072, 1073, 1086, 1090, 1082, 1072, 32, 1080, 1079, 1086, 1073, 1088, 1072, 1078, 1077, 1085, 1080, 1081], \<comment> \<open>obrabotka izobrazhenij\<close>
           ascii ''image processing'',
           [1088, 1072, 1089, 1087, 1086, 1079, 1085, 1072, 1074, 1072, 1085, 1080, 1077], \<comment> \<open>raspoznavanie\<close>
           ascii ''recognition'',
           [1076, 1077, 1090, 1077, 1082, 1094, 1080, 1103], \<comment> \<open>detekciya\<close>
           ascii ''detection'',
           [1089, 1077, 1075, 1084, 1077, 1085, 1090, 1072, 1094, 1080, 1103], \<comment> \<open>segmentaciya\<close>
           ascii ''segmentation'',
           ascii ''yolo'',
           ascii ''cnn''
          ],
        preferences = [ascii ''computer_vision'', ascii ''machine_learning'', ascii ''programming''],
        description = [67, 111, 109, 112, 117, 116, 101, 114, 32, 86, 105, 115, 105, 111, 110, 32, 1089, 1087, 1077, 1094, 1080, 1072, 1083, 1080, 1089, 1090]\<rparr>),
      (ascii ''nlp_specialist'', \<comment> \<open>NLP specialist\<close>
       \<lparr>profile_keywords =
          [
           ascii ''nlp'',
           ascii ''natural language processing'',
           [1077, 1089, 1090, 1077, 1089, 1090, 1074, 1077, 1085, 1085, 1099, 1081, 32, 1103, 1079, 1099, 1082], \<comment> \<open>estestvennyj yazyk\<close>
           [1086, 1073, 1088, 1072, 1073, 1086, 1090, 1082, 1072, 32, 1103, 1079, 1099, 1082, 1072], \<comment> \<open>obrabotka yazyka\<close>
           [1090, 1077, 1082, 1089, 1090], \<comment> \<open>tekst\<close>
           ascii ''text'',
           [1103, 1079, 1099, 1082, 1086, 1074, 1099, 1077, 32, 1084, 1086, 1076, 1077, 1083, 1080], \<comment> \<open>yazykovye modeli\<close>
           ascii ''language models'',
           ascii ''llm'',
           ascii ''bert'',
           ascii ''gpt'',
           ascii ''transformers'',
           [1095, 1072, 1090, 1073, 1086, 1090, 1099], \<comment> \<open>chatboty\<close>
           ascii ''chatbots'',
           ascii ''sentiment'',
           [1090, 1086, 1085, 1072, 1083, 1100, 1085, 1086, 1089, 1090, 1100] \<comment> \<open>tonal'nost'\<close>
          ],
        preferences = [ascii ''nlp'', ascii ''machine_learning'', ascii ''programming''],
        description = [78, 76, 80, 32, 1089, 1087, 1077, 1094, 1080, 1072, 1083, 1080, 1089, 1090]\<rparr>),
      (ascii ''product_manager'', \<comment> \<open>Product Manager\<close>
       \<lparr>profile_keywords =
          [
           ascii ''product manager'',
           [1087, 1088, 1086, 1076, 1091, 1082, 1090], \<comment> \<open>produkt\<close>
           ascii ''product'',
           [1084, 1077, 1085, 1077, 1076, 1078, 1077, 1088], \<comment> \<open>menedzher\<close>
           ascii ''manager'',
           [1091, 1087, 1088, 1072, 1074, 1083, 1077, 1085, 1080, 1077], \<comment> \<open>upravlenie\<close>
           ascii ''management'',
           [1073, 1080, 1079, 1085, 1077, 1089], \<comment> \<open>biznes\<close>
           ascii ''business'',
           [1089, 1090, 1088, 1072, 1090, 1077, 1075, 1080, 1103], \<comment> \<open>strategiya\<close>
           ascii ''strategy'',
           ascii ''roadmap'',
           [1087, 1083, 1072, 1085, 1080, 1088, 1086, 1074, 1072, 1085, 1080, 1077], \<comment> \<open>planirovanie\<close>
           ascii ''planning'',
           [1087, 1088, 1086, 1076, 1091, 1082, 1090, 1086, 1074, 1099, 1081], \<comment> \<open>produktovyj\<close>
           [1072, 1085, 1072, 1083, 1080, 1090, 1080, 1082, 1072], \<comment> \<open>analitika\<close>
           ascii ''analytics'',
           [1084, 1077, 1090, 1088, 1080, 1082, 1080], \<comment> \<open>metriki\<close>
           ascii ''metrics'',
           [97, 47, 98, 32, 1090, 1077, 1089, 1090, 1099] \<comment> \<open>a/b testy\<close>
          ],
        preferences = [ascii ''product'', ascii ''data_science'', ascii ''machine_learning''],
        description = ascii ''Product Manager''\<rparr>),
      (ascii ''systems_architect'', \<comment> \<open>Sistemnyj arhitektor\<close>
       \<lparr>profile_keywords =
          [
           [1072, 1088, 1093, 1080, 1090, 1077, 1082, 1090, 1086, 1088], \<comment> \<open>arhitektor\<close>
           ascii ''architect'',
           [1089, 1080, 1089, 1090, 1077, 1084, 1099], \<comment> \<open>sistemy\<close>
           ascii ''systems'',
           [1072, 1088, 1093, 1080, 1090, 1077, 1082, 1090, 1091, 1088, 1072], \<comment> \<open>arhitektura\<close>
           ascii ''architecture'',
           [1074, 1099, 1089, 1086, 1082, 1086, 1085, 1072, 1075, 1088, 1091, 1078, 1077, 1085, 1085, 1099, 1077], \<comment> \<open>vysokonagruzhennye\<close>
           ascii ''highload'',
           ascii ''high-load'',
           [1084, 1072, 1089, 1096, 1090, 1072, 1073, 1080, 1088, 1086, 1074, 1072, 1085, 1080, 1077], \<comment> \<open>masshtabirovanie\<close>
           ascii ''scaling'',
           [1087, 1088, 1086, 1080, 1079, 1074, 1086, 1076, 1080, 1090, 1077, 1083, 1100, 1085, 1086, 1089, 1090, 1100], \<comment> \<open>proizvoditel'nost'\<close>
           ascii ''performance'',
           [1080, 1085, 1092, 1088, 1072, 1089, 1090, 1088, 1091, 1082, 1090, 1091, 1088, 1072], \<comment> \<open>infrastruktura\<close>
           ascii ''infrastructure'',
           [1086, 1073, 1083, 1072, 1082, 1086], \<comment> \<open>oblako\<close>
           ascii ''cloud'',
           ascii ''kubernetes'',
           ascii ''docker'',
           [1084, 1080, 1082, 1088, 1086, 1089, 1077, 1088, 1074, 1080, 1089, 1099] \<comment> \<open>mikroservisy\<close>
          ],
        preferences = [ascii ''systems'', ascii ''programming'', ascii ''machine_learning''],
        description = [1057, 1080, 1089, 1090, 1077, 1084, 1085, 1099, 1081, 32, 1072, 1088, 1093, 1080, 1090, 1077, 1082, 1090, 1086, 1088]\<rparr>),
      (ascii ''backend_developer'', \<comment> \<open>Backend razrabotchik\<close>
       \<lparr>profile_keywords =
          [
           ascii ''backend'',
           [1073, 1101, 1082, 1077, 1085, 1076], \<comment> \<open>bekend\<close>
           [1089, 1077, 1088, 1074, 1077, 1088, 1085, 1072, 1103, 32, 1088, 1072, 1079, 1088, 1072, 1073, 1086, 1090, 1082, 1072], \<comment> \<open>servernaya razrabotka\<close>
           ascii ''server-side'',
           ascii ''api'',
           ascii ''rest'',
           ascii ''graphql'',
           [1073, 1072, 1079, 1099, 32, 1076, 1072, 1085, 1085, 1099, 1093], \<comment> \<open>bazy dannyh\<close>
           ascii ''databases'',
           ascii ''postgresql'',
           ascii ''mysql'',
           ascii ''mongodb'',
           ascii ''redis'',
           ascii ''java'',
           ascii ''go'',
           ascii ''c#'',
           ascii ''node.js'',
           ascii ''spring''
          ],
        preferences = [ascii ''programming'', ascii ''systems'', ascii ''data_science''],
        description = [66, 97, 99, 107, 101, 110, 100, 32, 1088, 1072, 1079, 1088, 1072, 1073, 1086, 1090, 1095, 1080, 1082]\<rparr>),
      (ascii ''frontend_developer'', \<comment> \<open>Frontend razrabotchik\<close>
       \<lparr>profile_keywords =
          [
           ascii ''frontend'',
           [1092, 1088, 1086, 1085, 1090, 1077, 1085, 1076], \<comment> \<open>frontend\<close>
           [1082, 1083, 1080, 1077, 1085, 1090, 1089, 1082, 1072, 1103, 32, 1088, 1072, 1079, 1088, 1072, 1073, 1086, 1090, 1082, 1072], \<comment> \<open>klientskaya razrabotka\<close>
           ascii ''client-side'',
           ascii ''react'',
           ascii ''vue'',
           ascii ''angular'',
           ascii ''javascript'',
           ascii ''typescript'',
           ascii ''html'',
           ascii ''css'',
           ascii ''ui'',
           ascii ''ux'',
           [1080, 1085, 1090, 1077, 1088, 1092, 1077, 1081, 1089, 1099], \<comment> \<open>interfejsy\<close>
           ascii ''interfaces''
          ],
        preferences = [ascii ''programming'', ascii ''product'', ascii ''machine_learning''],
        description = [70, 114, 111, 110, 116, 101, 110, 100, 32, 1088, 1072, 1079, 1088, 1072, 1073, 1086, 1090, 1095, 1080, 1082]\<rparr>),
      (ascii ''mobile_developer'', \<comment> \<open>Mobile razrabotchik\<close>
       \<lparr>profile_keywords =
          [
           ascii ''mobile'',
           [1084, 1086, 1073, 1080, 1083, 1100, 1085, 1072, 1103, 32, 1088, 1072, 1079, 1088, 1072, 1073, 1086, 1090, 1082, 1072], \<comment> \<open>mobil'naya razrabotka\<close>
           ascii ''android'',
           ascii ''ios'',
           ascii ''react native'',
           ascii ''flutter'',
           ascii ''swift'',
           ascii ''kotlin'',
           [1087, 1088, 1080, 1083, 1086, 1078, 1077, 1085, 1080, 1103], \<comment> \<open>prilozheniya\<close>
           ascii ''apps'',
           [1084, 1086, 1073, 1080, 1083, 1100, 1085, 1099, 1077, 32, 1087, 1088, 1080, 1083, 1086, 1078, 1077, 1085, 1080, 1103] \<comment> \<open>mobil'nye prilozheniya\<close>
          ],
        preferences = [ascii ''programming'', ascii ''product'', ascii ''systems''],
        description = [77, 111, 98, 105, 108, 101, 32, 1088, 1072, 1079, 1088, 1072, 1073, 1086, 1090, 1095, 1080, 1082]\<rparr>),
      (ascii ''devops_engineer'', \<comment> \<open>DevOps Engineer\<close>
       \<lparr>profile_keywords =
          [
           ascii ''devops'',
           [1076, 1077, 1087, 1083, 1086, 1081], \<comment> \<open>deploj\<close>
           ascii ''deployment'',
           ascii ''ci/cd'',
           ascii ''jenkins'',
           ascii ''gitlab'',
           ascii ''github actions'',
           ascii ''terraform'',
           ascii ''ansible'',
           [1084, 1086, 1085, 1080, 1090, 1086, 1088, 1080, 1085, 1075], \<comment> \<open>monitoring\<close>
           ascii ''monitoring'',
           [1083, 1086, 1075, 1080, 1088, 1086, 1074, 1072, 1085, 1080, 1077], \<comment> \<open>logirovanie\<close>
           ascii ''logging''
          ],
        preferences = [ascii ''systems'', ascii ''programming'', ascii ''machine_learning''],
        description = ascii ''DevOps Engineer''\<rparr>),
      (ascii ''qa_engineer'', \<comment> \<open>QA Engineer\<close>
       \<lparr>profile_keywords =
          [
           ascii ''qa'',
           [1090, 1077, 1089, 1090, 1080, 1088, 1086, 1074, 1072, 1085, 1080, 1077], \<comment> \<open>testirovanie\<close>
           ascii ''testing'',
           [1072, 1074, 1090, 1086, 1090, 1077, 1089, 1090, 1099], \<comment> \<open>avtotesty\<close>
           ascii ''automation'',
           ascii ''selenium'',
           ascii ''pytest'',
           [1082, 1072, 1095, 1077, 1089, 1090, 1074, 1086], \<comment> \<open>kachestvo\<close>
           ascii ''quality assurance'',
           [1073, 1072, 1075, 1080], \<comment> \<open>bagi\<close>
           ascii ''bugs'',
           [1090, 1077, 1089, 1090, 45, 1082, 1077, 1081, 1089, 1099], \<comment> \<open>test-kejsy\<close>
           ascii ''test cases''
          ],
        preferences = [ascii ''programming'', ascii ''systems'', ascii ''product''],
        description = ascii ''QA Engineer''\<rparr>),
      (ascii ''business_analyst'', \<comment> \<open>Biznes-analitik\<close>
       \<lparr>profile_keywords =
          [
           ascii ''business analyst'',
           [1073, 1080, 1079, 1085, 1077, 1089, 45, 1072, 1085, 1072, 1083, 1080, 1090, 1080, 1082], \<comment> \<open>biznes-analitik\<close>
           [1072, 1085, 1072, 1083, 1080, 1090, 1080, 1082], \<comment> \<open>analitik\<close>
           [1090, 1088, 1077, 1073, 1086, 1074, 1072, 1085, 1080, 1103], \<comment> \<open>trebovaniya\<close>
           ascii ''requirements'',
           [1087, 1088, 1086, 1094, 1077, 1089, 1089, 1099], \<comment> \<open>processy\<close>
           ascii ''processes'',
           [1076, 1086, 1082, 1091, 1084, 1077, 1085, 1090, 1072, 1094, 1080, 1103], \<comment> \<open>dokumentaciya\<close>
           ascii ''documentation'',
           ascii ''stakeholders''
          ],
        preferences = [ascii ''product'', ascii ''data_science'', ascii ''programming''],
        description = [1041, 1080, 1079, 1085, 1077, 1089, 45, 1072, 1085, 1072, 1083, 1080, 1090, 1080, 1082]\<rparr>),
      (ascii ''researcher'', \<comment> \<open>Issledovatel'\<close>
       \<lparr>profile_keywords =
          [
           [1080, 1089, 1089, 1083, 1077, 1076, 1086, 1074, 1072, 1090, 1077, 1083, 1100], \<comment> \<open>issledovatel'\<close>
           ascii ''researcher'',
           [1085, 1072, 1091, 1082, 1072], \<comment> \<open>nauka\<close>
           ascii ''science'',
           [1080, 1089, 1089, 1083, 1077, 1076, 1086, 1074, 1072, 1085, 1080, 1103], \<comment> \<open>issledovaniya\<close>
           ascii ''research'',
           [1087, 1091, 1073, 1083, 1080, 1082, 1072, 1094, 1080, 1080], \<comment> \<open>publikacii\<close>
           ascii ''papers'',
           [1101, 1082, 1089, 1087, 1077, 1088, 1080, 1084, 1077, 1085, 1090, 1099], \<comment> \<open>eksperimenty\<close>
           ascii ''experiments'',
           ascii ''phd'',
           [1082, 1072, 1085, 1076, 1080, 1076, 1072, 1090, 32, 1085, 1072, 1091, 1082] \<comment> \<open>kandidat nauk\<close>
          ],
        preferences = [ascii ''machine_learning'', ascii ''data_science'', ascii ''programming''],
        description = [1048, 1089, 1089, 1083, 1077, 1076, 1086, 1074, 1072, 1090, 1077, 1083, 1100]\<rparr>),
      (ascii ''student'', \<comment> \<open>Student\<close>
       \<lparr>profile_keywords =
          [
           [1089, 1090, 1091, 1076, 1077, 1085, 1090], \<comment> \<open>student\<close>
           ascii ''student'',
           [1091, 1095, 1091, 1089, 1100], \<comment> \<open>uchus'\<close>
           ascii ''studying'',
           [1091, 1085, 1080, 1074, 1077, 1088, 1089, 1080, 1090, 1077, 1090], \<comment> \<open>universitet\<close>
           [1074, 1091, 1079], \<comment> \<open>vuz\<close>
           [1080, 1085, 1089, 1090, 1080, 1090, 1091, 1090], \<comment> \<open>institut\<close>
           [1082, 1091, 1088, 1089, 1086, 1074, 1099, 1077], \<comment> \<open>kursovye\<close>
           [1076, 1080, 1087, 1083, 1086, 1084, 1085, 1072, 1103], \<comment> \<open>diplomnaya\<close>
           ascii ''thesis'',
           [1073, 1072, 1082, 1072, 1083, 1072, 1074, 1088], \<comment> \<open>bakalavr\<close>
           ascii ''bachelor'',
           [1084, 1072, 1075, 1080, 1089, 1090, 1088], \<comment> \<open>magistr\<close>
           ascii ''master''
          ],
        preferences = [ascii ''machine_learning'', ascii ''programming'', ascii ''data_science''],
        description = [1057, 1090, 1091, 1076, 1077, 1085, 1090]\<rparr>)
     ]"

subsection \<open>Scoring the profiles\<close>

text \<open>
  The loop over the keywords of one profile, with its two variables \<open>score\<close> and
  \<open>matched_keywords\<close>.
\<close>

fun count_keywords :: "pystr list \<Rightarrow> pystr \<Rightarrow> nat \<times> pystr list \<Rightarrow> nat \<times> pystr list" where
  "count_keywords [] background_lower (score, matched) = (score, matched)"
| "count_keywords (keyword # rest) background_lower (score, matched) =
     (if py_in keyword background_lower
      then count_keywords rest background_lower (score + 1, matched @ [keyword])
      else count_keywords rest background_lower (score, matched))"

text \<open>
  \<open>score = score * (1 + len(matched_keywords) * 0.1)\<close> when \<open>score > 0\<close>. The
  program computes this in floating point; the model computes the exact value. The
  scores are only compared with each other and with 0, and for the at most 39
  keywords of a profile the exact values of different counts lie more than 1 apart,
  far more than the rounding error, so the comparisons agree.
\<close>

definition score_profile :: "profile \<Rightarrow> pystr \<Rightarrow> real \<times> pystr list" where
  "score_profile profile_data background_lower =
     (case count_keywords (profile_keywords profile_data) background_lower (0, []) of
        (score, matched) \<Rightarrow>
          (if score > 0 then real score * (1 + real (length matched) * (1 / 10)) else 0,
           matched))"

definition profile_scores_of :: "pystr \<Rightarrow> (pystr \<times> real \<times> pystr list) list" where
  "profile_scores_of background_lower =
     map (\<lambda>(profile_name, profile_data). (profile_name, score_profile profile_data background_lower))
       user_profiles"

text \<open>
  The loop that finds the dominant profile, with its variables \<open>best_profile\<close> and
  \<open>best_score\<close>. It is written for any linearly ordered scores, so that it can also be
  run on the raw counts.
\<close>

fun find_best_profile ::
  "(pystr \<times> ('s::linorder) \<times> pystr list) list \<Rightarrow> pystr option \<times> 's \<Rightarrow> pystr option \<times> 's" where
  "find_best_profile [] (best_profile, best_score) = (best_profile, best_score)"
| "find_best_profile ((profile_name, data) # rest) (best_profile, best_score) =
     (if fst data > best_score
      then find_best_profile rest (Some profile_name, fst data)
      else find_best_profile rest (best_profile, best_score))"

text \<open>The truth value of an optional string: \<open>None\<close> and the empty string are false.\<close>

definition truthy :: "pystr option \<Rightarrow> bool" where
  "truthy v = (case v of None \<Rightarrow> False | Some s \<Rightarrow> s \<noteq> [])"

definition developer_words :: "pystr list" where
  "developer_words =
     [[1087, 1088, 1086, 1075, 1088, 1072, 1084, 1084, 1080, 1089, 1090], \<comment> \<open>programmist\<close>
      [1088, 1072, 1079, 1088, 1072, 1073, 1086, 1090, 1095, 1080, 1082], \<comment> \<open>razrabotchik\<close>
      ascii ''developer'',
      [1082, 1086, 1076], \<comment> \<open>kod\<close>
      ascii ''code'']"

definition descr_general_developer :: pystr where
  "descr_general_developer =
     [1056, 1072, 1079, 1088, 1072, 1073, 1086, 1090, 1095, 1080, 1082, 32, 40, 1086, 1073, 1097, 1080, 1081, 32, 1087, 1088, 1086, 1092, 1080, 1083, 1100, 41]"
  \<comment> \<open>Razrabotchik (obschij profil')\<close>

definition descr_undetermined :: pystr where
  "descr_undetermined = [1053, 1077, 32, 1086, 1087, 1088, 1077, 1076, 1077, 1083, 1077, 1085]"
  \<comment> \<open>Ne opredelen\<close>

text \<open>
  The choice of \<open>dominant_profile\<close>, \<open>preferences\<close> and \<open>profile_description\<close>.
  The subscript \<open>user_profiles[dominant_profile]\<close> is applied to a key of the
  registry (lemma \<open>best_profile_registered\<close>), so its \<open>KeyError\<close> branch, the
  \<open>None\<close> case of the lookup below, is never taken.
\<close>

definition fallback_profile :: "pystr \<Rightarrow> pystr option \<times> pystr list \<times> pystr" where
  "fallback_profile background_lower =
     (if any_in developer_words background_lower
      then (Some (ascii ''general_developer''),
            [ascii ''programming'', ascii ''systems'', ascii ''machine_learning''],
            descr_general_developer)
      else (None,
            [ascii ''machine_learning'', ascii ''programming'', ascii ''data_science''],
            descr_undetermined))"

definition choose_profile :: "pystr \<Rightarrow> pystr option \<times> pystr list \<times> pystr" where
  "choose_profile background_lower =
     (case find_best_profile (profile_scores_of background_lower) (None, 0) of
        (best_profile, best_score) \<Rightarrow>
          (case best_profile of
             Some p \<Rightarrow>
               if truthy best_profile \<and> best_score > 0
               then (case map_of user_profiles p of
                       Some profile_data \<Rightarrow> (Some p, preferences profile_data, description profile_data)
                     | None \<Rightarrow> (Some p, [], []))
               else fallback_profile background_lower
           | None \<Rightarrow> fallback_profile background_lower))"

subsection \<open>The recommendations\<close>

text \<open>
  A recommendation is the course's dict with three more keys. \<open>rec_category\<close> is the
  key \<open>category\<close>.
\<close>

record recommendation = course +
  rec_category :: pystr
  reason :: pystr
  priority :: nat

text \<open>
  \<open>list.sort(key=..., reverse=True)\<close>: a stable sort in descending order of the key,
  that is, the stable ascending sort of the reversed list, reversed.
\<close>

definition py_sort_reverse :: "('a \<Rightarrow> 'k::linorder) \<Rightarrow> 'a list \<Rightarrow> 'a list" where
  "py_sort_reverse key xs = rev (sort_key key (rev xs))"

definition reason_recommended :: pystr where
  "reason_recommended = [1056, 1077, 1082, 1086, 1084, 1077, 1085, 1076, 1086, 1074, 1072, 1085, 1086, 32, 1076, 1083, 1103, 32]"
  \<comment> \<open>Rekomendovano dlya\<close>

definition reason_baseline :: pystr where
  "reason_baseline = [1041, 1072, 1079, 1086, 1074, 1072, 1103, 32, 1088, 1077, 1082, 1086, 1084, 1077, 1085, 1076, 1072, 1094, 1080, 1103]"
  \<comment> \<open>Bazovaya rekomendaciya\<close>

definition reason_priority_area :: pystr where
  "reason_priority_area = [32, 40, 1087, 1088, 1080, 1086, 1088, 1080, 1090, 1077, 1090, 1085, 1072, 1103, 32, 1086, 1073, 1083, 1072, 1089, 1090, 1100, 41]"
  \<comment> \<open>(prioritetnaya oblast')\<close>

definition make_reason :: "pystr option \<Rightarrow> pystr \<Rightarrow> nat \<Rightarrow> pystr" where
  "make_reason dominant_profile profile_description i =
     (if truthy dominant_profile then reason_recommended @ profile_description
      else reason_baseline)
     @ (if i = 0 then reason_priority_area else [])"

definition make_recommendation :: "course \<Rightarrow> pystr \<Rightarrow> pystr \<Rightarrow> nat \<Rightarrow> recommendation" where
  "make_recommendation subject cat rsn prio =
     \<lparr>name = name subject, credits = credits subject, hours = hours subject,
      semester = semester subject, course_type = course_type subject,
      rec_category = cat, reason = rsn, priority = prio\<rparr>"

text \<open>
  The body of the loop over \<open>enumerate(preferences)\<close> for the position \<open>i\<close> and its
  category: the recommendations it appends.
\<close>

definition recommend_from ::
  "pystr option \<Rightarrow> pystr \<Rightarrow> pystr list \<Rightarrow> (pystr \<times> course list) list \<Rightarrow> nat \<Rightarrow> pystr
     \<Rightarrow> recommendation list" where
  "recommend_from dominant_profile profile_description prefs categorized i cat =
     (let subjects = (case map_of categorized cat of Some l \<Rightarrow> l | None \<Rightarrow> []);
          elective_subjects = filter (\<lambda>s. course_type s = s_elective) subjects;
          sorted_subjects = py_sort_reverse credits elective_subjects;
          limit = nat (max 1 (4 - int i))
      in map (\<lambda>subject.
                make_recommendation subject cat
                  (make_reason dominant_profile profile_description i) (length prefs - i))
           (take limit sorted_subjects))"

definition candidate_recommendations ::
  "pystr option \<Rightarrow> pystr \<Rightarrow> pystr list \<Rightarrow> (pystr \<times> course list) list \<Rightarrow> recommendation list" where
  "candidate_recommendations dominant_profile profile_description prefs categorized =
     foldl (\<lambda>recs (i, cat).
              recs @ recommend_from dominant_profile profile_description prefs categorized i cat)
       [] (enumerate 0 prefs)"

record analysis =
  total_courses :: nat
  elective_courses_count :: nat
  categories_found :: nat

record recommendation_result =
  user_profile :: pystr
  dominant_profile_key :: "pystr option"
  profile_scores :: "(pystr \<times> real) list"
  matched_keywords :: "pystr list"
  recommendations :: "recommendation list"
  category_distribution :: "(pystr \<times> nat) list"
  analysis :: analysis

definition generate_recommendations :: "pystr \<Rightarrow> curriculum \<Rightarrow> recommendation_result" where
  "generate_recommendations background_text curriculum =
     (let background_lower = lower background_text;
          scores = profile_scores_of background_lower;
          best_profile = fst (find_best_profile scores (None, 0));
          (dominant_profile, prefs, profile_description) = choose_profile background_lower;
          categorized = categorize_subjects curriculum;
          recs = candidate_recommendations dominant_profile profile_description prefs categorized;
          sorted_recs = py_sort_reverse (\<lambda>x. (priority x, credits x)) recs
      in \<lparr>user_profile = profile_description,
          dominant_profile_key = dominant_profile,
          profile_scores = map (\<lambda>(k, v). (k, fst v)) scores,
          matched_keywords =
            (case best_profile of
               Some p \<Rightarrow> if truthy best_profile
                         then (case map_of scores p of Some v \<Rightarrow> snd v | None \<Rightarrow> [])
                         else []
             | None \<Rightarrow> []),
          recommendations = take 10 sorted_recs,
          category_distribution = map (\<lambda>(cat, subjects). (cat, length subjects)) categorized,
          analysis =
            \<lparr>total_courses = length (all_courses curriculum),
             elective_courses_count = length (elective_courses curriculum),
             categories_found = length (filter (\<lambda>(cat, subjects). subjects \<noteq> []) categorized)\<rparr>\<rparr>)"

section \<open>The FAQ matcher (bot.py, is\_relevant\_question and find\_best\_answer)\<close>

text \<open>
  \<open>self.relevant_keywords\<close> is a set literal; it is only tested with \<open>any\<close>, so
  it is listed in the order of the literal, the repeated element once.
\<close>

definition relevant_keywords :: "pystr list" where
  "relevant_keywords =
     [
      [1087, 1086, 1089, 1090, 1091, 1087, 1083, 1077, 1085, 1080, 1077], \<comment> \<open>postuplenie\<close>
      [1087, 1086, 1089, 1090, 1091, 1087, 1080, 1090, 1100], \<comment> \<open>postupit'\<close>
      [1101, 1082, 1079, 1072, 1084, 1077, 1085], \<comment> \<open>ekzamen\<close>
      [1101, 1082, 1079, 1072, 1084, 1077, 1085, 1099], \<comment> \<open>ekzameny\<close>
      [1084, 1072, 1075, 1080, 1089, 1090, 1088, 1072, 1090, 1091, 1088, 1072], \<comment> \<open>magistratura\<close>
      [1086, 1073, 1091, 1095, 1077, 1085, 1080, 1077], \<comment> \<open>obuchenie\<close>
      [1087, 1088, 1086, 1075, 1088, 1072, 1084, 1084, 1072], \<comment> \<open>programma\<close>
      [1087, 1088, 1086, 1075, 1088, 1072, 1084, 1084, 1099], \<comment> \<open>programmy\<close>
      [1076, 1080, 1087, 1083, 1086, 1084], \<comment> \<open>diplom\<close>
      [1089, 1090, 1080, 1087, 1077, 1085, 1076, 1080, 1103], \<comment> \<open>stipendiya\<close>
      [1082, 1072, 1088, 1100, 1077, 1088, 1072], \<comment> \<open>kar'era\<close>
      [1086, 1073, 1088, 1072, 1079, 1086, 1074, 1072, 1085, 1080, 1077], \<comment> \<open>obrazovanie\<close>
      [1091, 1095, 1077, 1073, 1072], \<comment> \<open>ucheba\<close>
      [1091, 1095, 1077, 1073, 1085, 1099, 1081], \<comment> \<open>uchebnyj\<close>
      [1087, 1083, 1072, 1085], \<comment> \<open>plan\<close>
      [1087, 1083, 1072, 1085, 1099], \<comment> \<open>plany\<close>
      [1082, 1091, 1088, 1089], \<comment> \<open>kurs\<close>
      [1082, 1091, 1088, 1089, 1099], \<comment> \<open>kursy\<close>
      [1087, 1088, 1077, 1076, 1084, 1077, 1090], \<comment> \<open>predmet\<close>
      [1087, 1088, 1077, 1076, 1084, 1077, 1090, 1099], \<comment> \<open>predmety\<close>
      [1076, 1080, 1089, 1094, 1080, 1087, 1083, 1080, 1085, 1072], \<comment> \<open>disciplina\<close>
      [1076, 1080, 1089, 1094, 1080, 1087, 1083, 1080, 1085, 1099], \<comment> \<open>discipliny\<close>
      [1087, 1088, 1086, 1077, 1082, 1090], \<comment> \<open>proekt\<close>
      [1087, 1088, 1072, 1082, 1090, 1080, 1082, 1072], \<comment> \<open>praktika\<close>
      [1089, 1090, 1072, 1078, 1080, 1088, 1086, 1074, 1082, 1072], \<comment> \<open>stazhirovka\<close>
      [1080, 1089, 1082, 1091, 1089, 1089, 1090, 1074, 1077, 1085, 1085, 1099, 1081, 32, 1080, 1085, 1090, 1077, 1083, 1083, 1077, 1082, 1090], \<comment> \<open>iskusstvennyj intellekt\<close>
      [1080, 1080], \<comment> \<open>ii\<close>
      ascii ''ai'',
      [1084, 1072, 1096, 1080, 1085, 1085, 1086, 1077, 32, 1086, 1073, 1091, 1095, 1077, 1085, 1080, 1077], \<comment> \<open>mashinnoe obuchenie\<close>
      ascii ''ml'',
      [1087, 1088, 1086, 1076, 1091, 1082, 1090], \<comment> \<open>produkt\<close>
      [1087, 1088, 1086, 1076, 1091, 1082, 1090, 1086, 1074, 1099, 1081], \<comment> \<open>produktovyj\<close>
      [1074, 1099, 1089, 1086, 1082, 1086, 1085, 1072, 1075, 1088, 1091, 1078, 1077, 1085, 1085, 1099, 1077], \<comment> \<open>vysokonagruzhennye\<close>
      [1089, 1080, 1089, 1090, 1077, 1084, 1099], \<comment> \<open>sistemy\<close>
      ascii ''highload'',
      [1087, 1088, 1086, 1075, 1088, 1072, 1084, 1084, 1085, 1086, 1077, 32, 1086, 1073, 1077, 1089, 1087, 1077, 1095, 1077, 1085, 1080, 1077], \<comment> \<open>programmnoe obespechenie\<close>
      [1087, 1086], \<comment> \<open>po\<close>
      [1080, 1090, 1084, 1086], \<comment> \<open>itmo\<close>
      ascii ''itmo'',
      [1091, 1085, 1080, 1074, 1077, 1088, 1089, 1080, 1090, 1077, 1090], \<comment> \<open>universitet\<close>
      [1074, 1091, 1079], \<comment> \<open>vuz\<close>
      [1080, 1085, 1089, 1090, 1080, 1090, 1091, 1090], \<comment> \<open>institut\<close>
      [1089, 1086, 1076, 1077, 1088, 1078, 1072, 1085, 1080, 1077], \<comment> \<open>soderzhanie\<close>
      [1089, 1086, 1076, 1077, 1088, 1078, 1072, 1085, 1080, 1080], \<comment> \<open>soderzhanii\<close>
      [1095, 1090, 1086, 32, 1080, 1079, 1091, 1095, 1072, 1102, 1090], \<comment> \<open>chto izuchayut\<close>
      [1095, 1090, 1086, 32, 1080, 1079, 1091, 1095, 1072, 1077, 1090, 1089, 1103], \<comment> \<open>chto izuchaetsya\<close>
      [1095, 1077, 1084, 1091, 32, 1091, 1095, 1072, 1090], \<comment> \<open>chemu uchat\<close>
      [1095, 1077, 1084, 1091, 32, 1086, 1073, 1091, 1095, 1072, 1102, 1090], \<comment> \<open>chemu obuchayut\<close>
      [1082, 1086, 1083, 1080, 1095, 1077, 1089, 1090, 1074, 1086], \<comment> \<open>kolichestvo\<close>
      [1089, 1082, 1086, 1083, 1100, 1082, 1086], \<comment> \<open>skol'ko\<close>
      [1084, 1077, 1089, 1090, 1072], \<comment> \<open>mesta\<close>
      [1084, 1077, 1089, 1090], \<comment> \<open>mest\<close>
      [1073, 1102, 1076, 1078, 1077, 1090], \<comment> \<open>byudzhet\<close>
      [1073, 1102, 1076, 1078, 1077, 1090, 1085, 1099, 1077], \<comment> \<open>byudzhetnye\<close>
      [1087, 1083, 1072, 1090, 1085, 1099, 1077], \<comment> \<open>platnye\<close>
      [1089, 1090, 1086, 1080, 1084, 1086, 1089, 1090, 1100], \<comment> \<open>stoimost'\<close>
      [1094, 1077, 1085, 1072], \<comment> \<open>cena\<close>
      [1086, 1087, 1083, 1072, 1090, 1072], \<comment> \<open>oplata\<close>
      [1089, 1090, 1086, 1080, 1090], \<comment> \<open>stoit\<close>
      [1089, 1090, 1086, 1080, 1084, 1086, 1089, 1090, 1080], \<comment> \<open>stoimosti\<close>
      [1090, 1088, 1077, 1073, 1086, 1074, 1072, 1085, 1080, 1103], \<comment> \<open>trebovaniya\<close>
      [1091, 1089, 1083, 1086, 1074, 1080, 1103], \<comment> \<open>usloviya\<close>
      [1082, 1072, 1082, 32, 1087, 1086, 1089, 1090, 1091, 1087, 1080, 1090, 1100], \<comment> \<open>kak postupit'\<close>
      [1076, 1086, 1082, 1091, 1084, 1077, 1085, 1090, 1099], \<comment> \<open>dokumenty\<close>
      [1076, 1083, 1080, 1090, 1077, 1083, 1100, 1085, 1086, 1089, 1090, 1100], \<comment> \<open>dlitel'nost'\<close>
      [1089, 1088, 1086, 1082], \<comment> \<open>srok\<close>
      [1075, 1086, 1076, 1072], \<comment> \<open>goda\<close>
      [1083, 1077, 1090], \<comment> \<open>let\<close>
      [1089, 1077, 1084, 1077, 1089, 1090, 1088], \<comment> \<open>semestr\<close>
      [1089, 1077, 1084, 1077, 1089, 1090, 1088, 1099], \<comment> \<open>semestry\<close>
      [1087, 1088, 1077, 1087, 1086, 1076, 1072, 1074, 1072, 1090, 1077, 1083, 1080], \<comment> \<open>prepodavateli\<close>
      [1082, 1072, 1092, 1077, 1076, 1088, 1072], \<comment> \<open>kafedra\<close>
      [1092, 1072, 1082, 1091, 1083, 1100, 1090, 1077, 1090], \<comment> \<open>fakul'tet\<close>
      [1085, 1072, 1087, 1088, 1072, 1074, 1083, 1077, 1085, 1080, 1077], \<comment> \<open>napravlenie\<close>
      [1074, 1099, 1087, 1091, 1089, 1082, 1085, 1080, 1082, 1080], \<comment> \<open>vypuskniki\<close>
      [1090, 1088, 1091, 1076, 1086, 1091, 1089, 1090, 1088, 1086, 1081, 1089, 1090, 1074, 1086], \<comment> \<open>trudoustrojstvo\<close>
      [1088, 1072, 1073, 1086, 1090, 1072] \<comment> \<open>rabota\<close>
     ]"

definition is_relevant_question :: "pystr \<Rightarrow> bool" where
  "is_relevant_question question = any_in relevant_keywords (lower question)"

text \<open>\<open>s.split()\<close>: the maximal runs of characters that are not white space.\<close>

fun split_ws :: "pystr \<Rightarrow> pystr \<Rightarrow> pystr list" where
  "split_ws w [] = (if w = [] then [] else [w])"
| "split_ws w (c # cs) =
     (if is_space c then (if w = [] then split_ws [] cs else w # split_ws [] cs)
      else split_ws (w @ [c]) cs)"

record faq_item =
  question :: pystr
  answer :: pystr

text \<open>
  A program record of \<open>programs_data\<close>; only the key \<open>faq\<close> is read here, and it
  may be absent. \<open>programs_data\<close> itself is a dict loaded from a file, iterated in
  insertion order: an association list.
\<close>

record program_data =
  faq :: "faq_item list option"

record faq_match = faq_item +
  program :: pystr
  score :: real
  matched_words :: "pystr set"

text \<open>
  The composite score is floating-point arithmetic over the ratio of
  \<open>difflib.SequenceMatcher\<close>; the loop only compares it. It is the parameter
  \<open>total_score\<close>, a function of the lowercased question and the entry whose
  value is the real number the float denotes. The literal \<open>0.2\<close> denotes the
  double nearest to one fifth, which lies just above it.
\<close>

definition py_float_0_2 :: real where
  "py_float_0_2 = 3602879701896397 / 18014398509481984"

text \<open>
  The loop's variables \<open>best_match\<close> and \<open>best_score\<close>, and a record of the
  entries a score was computed for, in order (not a variable of the program).
\<close>

record scan_state =
  best_match :: "faq_match option"
  best_score :: real
  scored :: "(pystr \<times> faq_item) list"

definition initial_scan :: scan_state where
  "initial_scan = \<lparr>best_match = None, best_score = 0, scored = []\<rparr>"

definition make_match :: "pystr \<Rightarrow> pystr \<Rightarrow> faq_item \<Rightarrow> real \<Rightarrow> faq_match" where
  "make_match question_lower prog_name item s =
     \<lparr>question = question item, answer = answer item, program = prog_name, score = s,
      matched_words = set (split_ws [] question_lower) \<inter> set (split_ws [] (lower (question item)))\<rparr>"

definition score_item ::
  "(pystr \<Rightarrow> faq_item \<Rightarrow> real) \<Rightarrow> pystr \<Rightarrow> pystr \<Rightarrow> scan_state \<Rightarrow> faq_item \<Rightarrow> scan_state" where
  "score_item total_score question_lower prog_name st item =
     (let s = total_score question_lower item;
          st' = st\<lparr>scored := scored st @ [(prog_name, item)]\<rparr>
      in if s > best_score st \<and> s > py_float_0_2
         then st'\<lparr>best_score := s,
                 best_match := Some (make_match question_lower prog_name item s)\<rparr>
         else st')"

definition scan_program ::
  "(pystr \<Rightarrow> faq_item \<Rightarrow> real) \<Rightarrow> pystr \<Rightarrow> scan_state \<Rightarrow> pystr \<times> program_data \<Rightarrow> scan_state" where
  "scan_program total_score question_lower st p =
     (case p of (prog_name, pd) \<Rightarrow>
        (case faq pd of
           None \<Rightarrow> st
         | Some items \<Rightarrow> foldl (score_item total_score question_lower prog_name) st items))"

definition faq_scan ::
  "(pystr \<Rightarrow> faq_item \<Rightarrow> real) \<Rightarrow> (pystr \<times> program_data) list \<Rightarrow> pystr \<Rightarrow> scan_state" where
  "faq_scan total_score programs_data question_text =
     (if \<not> is_relevant_question question_text then initial_scan
      else foldl (scan_program total_score (lower question_text)) initial_scan programs_data)"

definition find_best_answer ::
  "(pystr \<Rightarrow> faq_item \<Rightarrow> real) \<Rightarrow> (pystr \<times> program_data) list \<Rightarrow> pystr \<Rightarrow> faq_match option" where
  "find_best_answer total_score programs_data question_text =
     best_match (faq_scan total_score programs_data question_text)"

subsection \<open>Notions used to state the matcher's properties\<close>

text \<open>The entries of the corpus in the order of the two nested loops.\<close>

definition corpus_entries :: "(pystr \<times> program_data) list \<Rightarrow> (pystr \<times> faq_item) list" where
  "corpus_entries programs_data =
     concat (map (\<lambda>(prog_name, pd).
                    case faq pd of None \<Rightarrow> [] | Some items \<Rightarrow> map (Pair prog_name) items)
               programs_data)"

text \<open>One step of the flattened loop: the score of an entry of \<open>corpus_entries\<close>.\<close>

definition entry_step ::
  "(pystr \<Rightarrow> faq_item \<Rightarrow> real) \<Rightarrow> pystr \<Rightarrow> scan_state \<Rightarrow> pystr \<times> faq_item \<Rightarrow> scan_state" where
  "entry_step total_score question_lower st e =
     score_item total_score question_lower (fst e) st (snd e)"

text \<open>
  The running best after a list of entries: no match and score 0 while nothing
  clears the floor, otherwise the match of an entry \<open>j\<close> that clears the floor,
  scores strictly more than every entry before it and at least as much as every
  entry of the list.
\<close>

definition first_best ::
  "(pystr \<Rightarrow> faq_item \<Rightarrow> real) \<Rightarrow> pystr \<Rightarrow> (pystr \<times> faq_item) list \<Rightarrow> scan_state \<Rightarrow> bool" where
  "first_best total_score question_lower es st =
     (case best_match st of
        None \<Rightarrow> best_score st = 0 \<and> (\<forall>i < length es. total_score question_lower (snd (es ! i)) \<le> py_float_0_2)
      | Some m \<Rightarrow>
          (\<exists>j < length es.
             m = make_match question_lower (fst (es ! j)) (snd (es ! j)) (best_score st)
             \<and> best_score st = total_score question_lower (snd (es ! j))
             \<and> best_score st > py_float_0_2
             \<and> (\<forall>i < j. total_score question_lower (snd (es ! i)) < best_score st)
             \<and> (\<forall>i < length es. total_score question_lower (snd (es ! i)) \<le> best_score st)))"

definition entry_score ::
  "(pystr \<Rightarrow> faq_item \<Rightarrow> real) \<Rightarrow> pystr \<Rightarrow> pystr \<times> faq_item \<Rightarrow> real" where
  "entry_score total_score question_text e = total_score (lower question_text) (snd e)"

subsection \<open>A small corpus and two questions\<close>

definition demo_programs :: "(pystr \<times> program_data) list" where
  "demo_programs =
     [(ascii ''A'', \<lparr>faq = None\<rparr>),
      (ascii ''B'', \<lparr>faq = Some [\<lparr>question = ascii ''x'', answer = ascii ''low''\<rparr>,
                               \<lparr>question = ascii ''y'', answer = ascii ''hi''\<rparr>,
                               \<lparr>question = ascii ''z'', answer = ascii ''hi''\<rparr>]\<rparr>)]"

definition demo_score :: "pystr \<Rightarrow> faq_item \<Rightarrow> real" where
  "demo_score question_lower item = (if answer item = ascii ''hi'' then 1 / 2 else 1 / 10)"

definition q_ai :: pystr where
  "q_ai = ascii ''AI?''"


subsection \<open>Notions used to state the engine's properties\<close>

text \<open>
  The order of two recommendations under the composite key (priority, credits),
  descending.
\<close>

definition key_ge :: "recommendation \<Rightarrow> recommendation \<Rightarrow> bool" where
  "key_ge a b = (priority a > priority b \<or> (priority a = priority b \<and> credits a \<ge> credits b))"

text \<open>
  \<open>ys\<close> is the stable sort of \<open>xs\<close> in descending order of the key: a
  rearrangement of \<open>xs\<close> with keys descending in which the elements of equal key
  keep the order they have in \<open>xs\<close>.
\<close>

definition stable_desc_sort :: "('a \<Rightarrow> nat) \<Rightarrow> 'a list \<Rightarrow> 'a list \<Rightarrow> bool" where
  "stable_desc_sort key xs ys =
     (mset ys = mset xs \<and> sorted_wrt (\<lambda>a b. key a \<ge> key b) ys
      \<and> (\<forall>k. filter (\<lambda>x. key x = k) ys = filter (\<lambda>x. key x = k) xs))"

definition electives_of :: "(pystr \<times> course list) list \<Rightarrow> pystr \<Rightarrow> course list" where
  "electives_of categorized cat = filter (\<lambda>s. course_type s = s_elective) (bucket categorized cat)"

definition undetermined_preferences :: "pystr list" where
  "undetermined_preferences =
     [ascii ''machine_learning'', ascii ''programming'', ascii ''data_science'']"

definition course_ml :: course where
  "course_ml =
     \<lparr>name = ascii ''ML'', credits = 5, hours = 0, semester = 1, course_type = s_elective\<rparr>"

definition course_py :: course where
  "course_py =
     \<lparr>name = ascii ''Python'', credits = 4, hours = 0, semester = 1, course_type = s_elective\<rparr>"

definition curriculum_two :: curriculum where
  "curriculum_two = empty_curriculum\<lparr>all_courses := [course_ml, course_py]\<rparr>"

definition ml_course :: "string \<Rightarrow> nat \<Rightarrow> pystr \<Rightarrow> course" where
  "ml_course suffix cr ty =
     \<lparr>name = ascii ''ML '' @ ascii suffix, credits = cr, hours = 0, semester = 1, course_type = ty\<rparr>"

definition curriculum_six :: curriculum where
  "curriculum_six =
     empty_curriculum\<lparr>all_courses :=
       [ml_course ''a'' 6 s_elective, ml_course ''b'' 8 s_elective, ml_course ''c'' 6 s_elective,
        ml_course ''d'' 2 s_elective, ml_course ''e'' 4 s_elective, ml_course ''f'' 9 s_mandatory]\<rparr>"

(*PROPERTIES*)
section \<open>Properties of the curriculum extractor\<close>

subsection \<open>The groups of a match are digit strings\<close>






lemma semester_search_digits:
  "semester_search line = Some g \<Longrightarrow> g \<noteq> [] \<and> list_all is_digit g"
  by (induction line rule: semester_search.induct)
     (auto simp: list_all_iff split: if_splits dest: set_takeWhileD)


lemma all_courses_init_semester [simp]:
  "all_courses (init_semester n c) = all_courses c"
  by (simp add: init_semester_def)

lemma all_courses_add_course [simp]:
  "all_courses (add_course ci c) = all_courses c @ [ci]"
  by (simp add: add_course_def Let_def)







subsection \<open>Semester lines\<close>



lemma kw_semestr_head: "kw_semestr @ post = 1089 # tl kw_semestr @ post"
  by (simp add: kw_semestr_def)










section \<open>Properties of the subject categorizer\<close>

lemma keys_categories: "map fst categories = butlast category_keys"
  by (simp add: categories_def category_keys_def)


lemma last_category_keys: "category_keys = map fst categories @ [s_other]"
  by (simp add: categories_def category_keys_def s_other_def)

lemma keywords_lower:
  "\<forall>(category, category_data) \<in> set categories.
     \<forall>keyword \<in> set (cat_keywords category_data). lower keyword = keyword"
  by (simp add: categories_def lower_def lower_char_def ascii_def)

lemma assign_category_find:
  "assign_category cats s =
     map_option fst (find (\<lambda>(category, category_data). any_in (cat_keywords category_data) s) cats)"
  by (induction cats s rule: assign_category.induct) simp_all

lemma any_in_hits:
  assumes "(category, category_data) \<in> set categories"
  shows "any_in (cat_keywords category_data) (lower nm) =
         list_ex (\<lambda>keyword. hits keyword nm) (cat_keywords category_data)"
proof -
  have "lower keyword = keyword" if "keyword \<in> set (cat_keywords category_data)" for keyword
    using keywords_lower assms that by blast
  then show ?thesis
    by (auto simp: any_in_def hits_def list_ex_iff)
qed

lemma bucket_key_assign:
  "bucket_key c =
     (case assign_category categories (lower (name c)) of Some category \<Rightarrow> category | None \<Rightarrow> s_other)"
proof -
  have "find (\<lambda>(category, category_data). list_ex (\<lambda>keyword. hits keyword (name c))
                   (cat_keywords category_data)) categories =
        find (\<lambda>(category, category_data). any_in (cat_keywords category_data) (lower (name c)))
          categories"
    by (rule find_cong) (auto simp: any_in_hits)
  then show ?thesis
    by (auto simp: bucket_key_def assign_category_find split: option.splits)
qed

lemma categorize_course_key:
  "categorize_course categorized c = append_to (bucket_key c) c categorized"
  by (simp add: categorize_course_def bucket_key_assign split: option.splits)




lemma map_of_foldl_append_to:
  "map_of (foldl (\<lambda>d c. append_to (key c) c d) d cs) k =
     map_option (\<lambda>l. l @ filter (\<lambda>c. key c = k) cs) (map_of d k)"
proof (induction cs arbitrary: d)
  case Nil
  then show ?case by (simp add: option.map_ident)
next
  case (Cons c cs)
  show ?case
    by (simp add: Cons)
       (simp add: append_to_def map_of_map_entry option.map_comp split: option.splits)
qed



lemma categorize_subjects_fold:
  "categorize_subjects curriculum =
     foldl (\<lambda>d c. append_to (bucket_key c) c d)
       (AList.update s_other [] (map (\<lambda>(category, category_data). (category, [])) categories))
       (all_courses curriculum)"
  unfolding categorize_subjects_def
  by (rule arg_cong [where f = "\<lambda>f. foldl f _ _"]) (auto simp: categorize_course_key fun_eq_iff)


lemma map_of_empty_buckets:
  "map_of (map (\<lambda>(category, category_data). (category, [])) cats) key =
     (if key \<in> fst ` set cats then Some [] else None)"
  by (induction cats) auto

lemma initial_buckets:
  assumes "key \<in> set category_keys"
  shows "map_of (AList.update s_other [] (map (\<lambda>(category, category_data). (category, [])) categories)) key
     = Some []"
  using assms by (auto simp: update_conv' map_of_empty_buckets last_category_keys)


lemma bucket_categorize_subjects:
  "key \<in> set category_keys \<Longrightarrow>
     bucket (categorize_subjects curriculum) key =
       filter (\<lambda>c. bucket_key c = key) (all_courses curriculum)"
  by (simp add: bucket_def categorize_subjects_fold map_of_foldl_append_to initial_buckets)


lemmas eval_bucket_key =
  bucket_key_def hits_def categories_def lower_def lower_char_def ascii_def s_other_def





section \<open>Properties of the FAQ matcher\<close>

lemma float_above_fifth: "1 / 5 < py_float_0_2"
  by (simp add: py_float_0_2_def)

lemma float_positive: "0 < py_float_0_2"
  by (simp add: py_float_0_2_def)

lemma scan_program_entries:
  "scan_program ts ql st (pn, pd) =
     foldl (entry_step ts ql) st
       (case faq pd of None \<Rightarrow> [] | Some items \<Rightarrow> map (Pair pn) items)"
  by (simp add: scan_program_def entry_step_def foldl_map split: option.splits)

lemma foldl_scan_program:
  "foldl (scan_program ts ql) st programs_data =
     foldl (entry_step ts ql) st (corpus_entries programs_data)"
proof (induction programs_data arbitrary: st)
  case Nil
  then show ?case by (simp add: corpus_entries_def)
next
  case (Cons p ps)
  obtain pn pd where p: "p = (pn, pd)" by (cases p)
  have "corpus_entries (p # ps) =
      (case faq pd of None \<Rightarrow> [] | Some items \<Rightarrow> map (Pair pn) items) @ corpus_entries ps"
    by (simp add: corpus_entries_def p)
  then show ?case
    by (simp add: p scan_program_entries Cons)
qed


lemma first_best_snoc:
  assumes "first_best ts ql es st"
  shows "first_best ts ql (es @ [e]) (entry_step ts ql st e)"
proof (cases "ts ql (snd e) > best_score st \<and> ts ql (snd e) > py_float_0_2")
  case True
  let ?s = "ts ql (snd e)"
  have st': "best_match (entry_step ts ql st e) = Some (make_match ql (fst e) (snd e) ?s)"
    "best_score (entry_step ts ql st e) = ?s"
    using True by (simp_all add: entry_step_def score_item_def Let_def)
  have below: "ts ql (snd (es ! i)) < ?s" if "i < length es" for i
  proof (cases "best_match st")
    case None
    with assms that have "ts ql (snd (es ! i)) \<le> py_float_0_2"
      by (simp add: first_best_def)
    with True show ?thesis by simp
  next
    case (Some m)
    with assms that have "ts ql (snd (es ! i)) \<le> best_score st"
      by (auto simp: first_best_def)
    with True show ?thesis by simp
  qed
  have all: "ts ql (snd ((es @ [e]) ! i)) \<le> ?s" if "i < length (es @ [e])" for i
  proof (cases "i < length es")
    case True
    then show ?thesis using below [of i] by (simp add: nth_append)
  next
    case False
    with that have "i = length es" by simp
    then show ?thesis by simp
  qed
  have before: "ts ql (snd ((es @ [e]) ! i)) < ?s" if "i < length es" for i
    using that below [of i] by (simp add: nth_append)
  have "length es < length (es @ [e])
      \<and> make_match ql (fst e) (snd e) ?s =
          make_match ql (fst ((es @ [e]) ! length es)) (snd ((es @ [e]) ! length es)) ?s
      \<and> ?s = ts ql (snd ((es @ [e]) ! length es))
      \<and> ?s > py_float_0_2
      \<and> (\<forall>i < length es. ts ql (snd ((es @ [e]) ! i)) < ?s)
      \<and> (\<forall>i < length (es @ [e]). ts ql (snd ((es @ [e]) ! i)) \<le> ?s)"
    using True before all by simp
  then show ?thesis
    unfolding first_best_def st' option.case by (rule exI [of _ "length es"])
next
  case False
  have st': "best_match (entry_step ts ql st e) = best_match st"
    "best_score (entry_step ts ql st e) = best_score st"
    using False by (auto simp: entry_step_def score_item_def Let_def)
  show ?thesis
  proof (cases "best_match st")
    case None
    with assms have a: "best_score st = 0"
      "\<forall>i < length es. ts ql (snd (es ! i)) \<le> py_float_0_2"
      by (simp_all add: first_best_def)
    with False float_positive have "ts ql (snd e) \<le> py_float_0_2" by auto
    have "ts ql (snd ((es @ [e]) ! i)) \<le> py_float_0_2" if "i < length (es @ [e])" for i
    proof (cases "i < length es")
      case True
      then show ?thesis using a(2) by (simp add: nth_append)
    next
      case False
      with that have "i = length es" by simp
      then show ?thesis using \<open>ts ql (snd e) \<le> py_float_0_2\<close> by simp
    qed
    with a(1) None show ?thesis
      by (simp add: first_best_def st')
  next
    case (Some m)
    with assms obtain j where j: "j < length es"
      "m = make_match ql (fst (es ! j)) (snd (es ! j)) (best_score st)"
      "best_score st = ts ql (snd (es ! j))"
      "best_score st > py_float_0_2"
      "\<forall>i < j. ts ql (snd (es ! i)) < best_score st"
      "\<forall>i < length es. ts ql (snd (es ! i)) \<le> best_score st"
      by (auto simp: first_best_def)
    from False j(4) have e: "ts ql (snd e) \<le> best_score st" by auto
    have all: "ts ql (snd ((es @ [e]) ! i)) \<le> best_score st" if "i < length (es @ [e])" for i
    proof (cases "i < length es")
      case True
      then show ?thesis using j(6) by (simp add: nth_append)
    next
      case False
      with that have "i = length es" by simp
      then show ?thesis using e by simp
    qed
    have before: "ts ql (snd ((es @ [e]) ! i)) < best_score st" if "i < j" for i
      using that j(1) j(5) by (simp add: nth_append)
    have "j < length (es @ [e])
      \<and> m = make_match ql (fst ((es @ [e]) ! j)) (snd ((es @ [e]) ! j)) (best_score st)
      \<and> best_score st = ts ql (snd ((es @ [e]) ! j))
      \<and> best_score st > py_float_0_2
      \<and> (\<forall>i < j. ts ql (snd ((es @ [e]) ! i)) < best_score st)
      \<and> (\<forall>i < length (es @ [e]). ts ql (snd ((es @ [e]) ! i)) \<le> best_score st)"
      using j(1-4) before all by (simp add: nth_append)
    then show ?thesis
      unfolding first_best_def st' Some option.case by (rule exI [of _ j])
  qed
qed

lemma first_best_foldl:
  "first_best ts ql es (foldl (entry_step ts ql) initial_scan es)"
proof (induction es rule: rev_induct)
  case Nil
  then show ?case by (simp add: first_best_def initial_scan_def)
next
  case (snoc e es)
  then show ?case by (simp add: first_best_snoc)
qed

lemma faq_scan_relevant:
  "is_relevant_question q \<Longrightarrow>
     faq_scan ts programs_data q =
       foldl (entry_step ts (lower q)) initial_scan (corpus_entries programs_data)"
  by (simp add: faq_scan_def foldl_scan_program)

lemma find_best_answer_irrelevant:
  "\<not> is_relevant_question q \<Longrightarrow> find_best_answer ts programs_data q = None"
  by (simp add: find_best_answer_def faq_scan_def initial_scan_def)


text \<open>
  Claim C4. In the scoring loop of \<open>find_best_answer\<close> a candidate entry replaces
  the running best exactly when its score is strictly greater than the best score so
  far and strictly greater than the floor \<open>0.2\<close>; otherwise the running best is
  kept. Consequently a returned match has a score above 0.2; it is an entry of the
  corpus whose score no entry exceeds and that every earlier entry (in scan order)
  scores strictly below, so on an exact tie the first-seen entry is kept; and for a
  question that passes the relevance gate no match is returned exactly when no entry
  scores above the floor.
\<close>

theorem C4_floor_and_ties:
  "(if total_score ql item > best_score st \<and> total_score ql item > py_float_0_2
    then best_match (score_item total_score ql pn st item) =
           Some (make_match ql pn item (total_score ql item))
         \<and> best_score (score_item total_score ql pn st item) = total_score ql item
    else best_match (score_item total_score ql pn st item) = best_match st
         \<and> best_score (score_item total_score ql pn st item) = best_score st)
   \<and> (\<forall>m. find_best_answer total_score programs_data q = Some m \<longrightarrow>
          score m > 1 / 5
          \<and> (\<exists>j < length (corpus_entries programs_data).
                question m = question (snd (corpus_entries programs_data ! j))
                \<and> answer m = answer (snd (corpus_entries programs_data ! j))
                \<and> program m = fst (corpus_entries programs_data ! j)
                \<and> score m = entry_score total_score q (corpus_entries programs_data ! j)
                \<and> (\<forall>i < j. entry_score total_score q (corpus_entries programs_data ! i) < score m)
                \<and> (\<forall>i < length (corpus_entries programs_data).
                      entry_score total_score q (corpus_entries programs_data ! i) \<le> score m)))
   \<and> (is_relevant_question q \<longrightarrow>
         (find_best_answer total_score programs_data q = None) =
         (\<forall>i < length (corpus_entries programs_data).
            entry_score total_score q (corpus_entries programs_data ! i) \<le> py_float_0_2))"
proof (intro conjI allI impI)
  show "if total_score ql item > best_score st \<and> total_score ql item > py_float_0_2
    then best_match (score_item total_score ql pn st item) =
           Some (make_match ql pn item (total_score ql item))
         \<and> best_score (score_item total_score ql pn st item) = total_score ql item
    else best_match (score_item total_score ql pn st item) = best_match st
         \<and> best_score (score_item total_score ql pn st item) = best_score st"
    by (simp add: score_item_def Let_def)
next
  fix m
  assume m: "find_best_answer total_score programs_data q = Some m"
  let ?es = "corpus_entries programs_data"
  let ?st = "foldl (entry_step total_score (lower q)) initial_scan ?es"
  have rel: "is_relevant_question q"
    using m find_best_answer_irrelevant [of q total_score programs_data] by auto
  then have bm: "best_match ?st = Some m"
    using m by (simp add: find_best_answer_def faq_scan_relevant)
  have "first_best total_score (lower q) ?es ?st" by (rule first_best_foldl)
  with bm obtain j where j: "j < length ?es"
    "m = make_match (lower q) (fst (?es ! j)) (snd (?es ! j)) (best_score ?st)"
    "best_score ?st = total_score (lower q) (snd (?es ! j))"
    "best_score ?st > py_float_0_2"
    "\<forall>i < j. total_score (lower q) (snd (?es ! i)) < best_score ?st"
    "\<forall>i < length ?es. total_score (lower q) (snd (?es ! i)) \<le> best_score ?st"
    by (auto simp: first_best_def)
  have sc: "score m = best_score ?st" using j(2) by (simp add: make_match_def)
  show "score m > 1 / 5" using sc j(4) float_above_fifth by simp
  have "question m = question (snd (?es ! j))
      \<and> answer m = answer (snd (?es ! j))
      \<and> program m = fst (?es ! j)
      \<and> score m = entry_score total_score q (?es ! j)
      \<and> (\<forall>i < j. entry_score total_score q (?es ! i) < score m)
      \<and> (\<forall>i < length ?es. entry_score total_score q (?es ! i) \<le> score m)"
    using j(3,5,6) sc by (simp add: entry_score_def) (simp add: j(2) make_match_def)
  with j(1) show "\<exists>j < length ?es.
      question m = question (snd (?es ! j))
      \<and> answer m = answer (snd (?es ! j))
      \<and> program m = fst (?es ! j)
      \<and> score m = entry_score total_score q (?es ! j)
      \<and> (\<forall>i < j. entry_score total_score q (?es ! i) < score m)
      \<and> (\<forall>i < length ?es. entry_score total_score q (?es ! i) \<le> score m)"
    by blast
next
  assume rel: "is_relevant_question q"
  let ?es = "corpus_entries programs_data"
  let ?st = "foldl (entry_step total_score (lower q)) initial_scan ?es"
  have fb: "first_best total_score (lower q) ?es ?st" by (rule first_best_foldl)
  have eq: "find_best_answer total_score programs_data q = best_match ?st"
    using rel by (simp add: find_best_answer_def faq_scan_relevant)
  show "(find_best_answer total_score programs_data q = None) =
         (\<forall>i < length ?es. entry_score total_score q (?es ! i) \<le> py_float_0_2)"
  proof (cases "best_match ?st")
    case None
    with fb eq show ?thesis by (simp add: first_best_def entry_score_def)
  next
    case (Some m)
    with fb obtain j where "j < length ?es"
      "best_score ?st = total_score (lower q) (snd (?es ! j))"
      "best_score ?st > py_float_0_2"
      by (auto simp: first_best_def)
    then have "\<not> (\<forall>i < length ?es. entry_score total_score q (?es ! i) \<le> py_float_0_2)"
      by (auto simp: entry_score_def not_le intro!: exI [of _ j])
    with Some eq show ?thesis by simp
  qed
qed

lemmas eval_relevant =
  is_relevant_question_def any_in_def relevant_keywords_def lower_def lower_char_def ascii_def

lemma q_ai_relevant: "is_relevant_question q_ai"
  by (simp add: eval_relevant q_ai_def)


lemma demo_best:
  "find_best_answer demo_score demo_programs q_ai =
     Some (make_match (lower q_ai) (ascii ''B'') \<lparr>question = ascii ''y'', answer = ascii ''hi''\<rparr> (1 / 2))"
  by (simp add: find_best_answer_def faq_scan_def q_ai_relevant demo_programs_def
      scan_program_def score_item_def Let_def initial_scan_def demo_score_def py_float_0_2_def
      ascii_def)

theorem C4_floor_and_ties_witness:
  "\<exists>m. find_best_answer demo_score demo_programs q_ai = Some m
       \<and> answer m = ascii ''hi'' \<and> question m = ascii ''y'' \<and> score m > 1 / 5"
  using C4_floor_and_ties [where total_score = demo_score and programs_data = demo_programs
      and q = q_ai and st = initial_scan and ql = "lower q_ai" and pn = "ascii ''B''"
      and item = "\<lparr>question = ascii ''y'', answer = ascii ''hi''\<rparr>"]
  by (simp add: demo_best) (simp add: make_match_def)



section \<open>Properties of the recommendation engine\<close>

lemma py_sort_reverse_sorted:
  "sorted_wrt (\<lambda>a b. key a \<ge> key b) (py_sort_reverse key xs)"
proof -
  have "sorted (map key (sort_key key (rev xs)))" by (rule sorted_sort_key)
  then have "sorted_wrt (\<lambda>a b. key a \<le> key b) (sort_key key (rev xs))"
    by (simp add: sorted_wrt_map)
  then show ?thesis
    by (simp add: py_sort_reverse_def sorted_wrt_rev)
qed

lemma py_sort_reverse_mset: "mset (py_sort_reverse key xs) = mset xs"
  by (simp add: py_sort_reverse_def)

lemma py_sort_reverse_stable:
  "filter (\<lambda>x. key x = k) (py_sort_reverse key xs) = filter (\<lambda>x. key x = k) xs"
proof -
  have "filter (\<lambda>x. key x = k) (sort_key key (rev xs)) = filter (\<lambda>x. key x = k) (rev xs)"
    by (rule sort_key_stable)
  then show ?thesis
    by (simp add: py_sort_reverse_def rev_filter [symmetric])
qed

lemma recommendations_eq:
  "recommendations (generate_recommendations bio cu) =
     (case choose_profile (lower bio) of
        (dp, prefs, descr) \<Rightarrow>
          take 10 (py_sort_reverse (\<lambda>x. (priority x, credits x))
                     (candidate_recommendations dp descr prefs (categorize_subjects cu))))"
  by (simp add: generate_recommendations_def Let_def split: prod.splits)

lemma dominant_profile_key_eq:
  "dominant_profile_key (generate_recommendations bio cu) = fst (choose_profile (lower bio))"
  by (simp add: generate_recommendations_def Let_def split: prod.splits)

lemma key_ge_pair: "key_ge a b = ((priority a, credits a) \<ge> (priority b, credits b))"
  by (auto simp: key_ge_def less_eq_prod_def)

text \<open>
  Claim C6. For every biography text and curriculum the list of recommendations
  returned by \<open>generate_recommendations\<close> has at most 10 entries and is sorted in
  descending order of the composite key (priority, credits).
\<close>

theorem C6_bounded_sorted:
  "length (recommendations (generate_recommendations bio cu)) \<le> 10
   \<and> sorted_wrt key_ge (recommendations (generate_recommendations bio cu))"
proof -
  obtain dp prefs descr where c: "choose_profile (lower bio) = (dp, prefs, descr)"
    by (cases "choose_profile (lower bio)")
  let ?pool = "candidate_recommendations dp descr prefs (categorize_subjects cu)"
  have r: "recommendations (generate_recommendations bio cu) =
      take 10 (py_sort_reverse (\<lambda>x. (priority x, credits x)) ?pool)"
    by (simp add: recommendations_eq c)
  have "sorted_wrt (\<lambda>a b. (priority a, credits a) \<ge> (priority b, credits b))
      (py_sort_reverse (\<lambda>x. (priority x, credits x)) ?pool)"
    by (rule py_sort_reverse_sorted)
  then have "sorted_wrt key_ge (py_sort_reverse (\<lambda>x. (priority x, credits x)) ?pool)"
    by (simp add: key_ge_pair [abs_def])
  then show ?thesis
    unfolding r by (simp add: sorted_wrt_take)
qed

subsection \<open>The registry\<close>

lemma registry_preferences: "list_all (\<lambda>(n, pd). length (preferences pd) = 3) user_profiles"
  by (simp add: user_profiles_def)

lemma registry_names_nonempty: "list_all (\<lambda>(n, pd). n \<noteq> []) user_profiles"
  by (simp add: user_profiles_def ascii_def)

lemma registry_names_distinct: "distinct (map fst user_profiles)"
  by (simp add: user_profiles_def ascii_def)

lemma registry_keywords_distinct: "list_all (\<lambda>(n, pd). distinct (profile_keywords pd)) user_profiles"
  by (simp add: user_profiles_def ascii_def)

lemma keys_profile_scores: "map fst (profile_scores_of bl) = map fst user_profiles"
  by (simp add: profile_scores_of_def split_def comp_def)

subsection \<open>The chosen profile\<close>

lemma best_profile_in:
  "find_best_profile xs (b, v) = (Some p, w) \<Longrightarrow> b = Some p \<or> p \<in> fst ` set xs"
  by (induction xs "(b, v)" arbitrary: b v rule: find_best_profile.induct)
     (auto split: if_splits)

lemma best_profile_registered:
  assumes "find_best_profile (profile_scores_of bl) (None, 0) = (Some p, w)"
  shows "\<exists>pd. map_of user_profiles p = Some pd \<and> (p, pd) \<in> set user_profiles"
proof -
  from best_profile_in [OF assms] have "p \<in> fst ` set (profile_scores_of bl)" by simp
  then have "p \<in> set (map fst user_profiles)"
    using keys_profile_scores [of bl] by (metis set_map)
  then obtain pd where "map_of user_profiles p = Some pd"
    by (metis map_of_eq_None_iff not_None_eq set_map)
  then show ?thesis by (blast dest: map_of_SomeD)
qed

lemma fallback_preferences: "length (fst (snd (fallback_profile bl))) = 3"
  by (simp add: fallback_profile_def)

lemma choose_profile_preferences:
  assumes "choose_profile bl = (dp, prefs, descr)"
  shows "length prefs = 3"
proof -
  obtain b w where f: "find_best_profile (profile_scores_of bl) (None, 0) = (b, w)"
    by (cases "find_best_profile (profile_scores_of bl) (None, 0)")
  show ?thesis
  proof (cases "\<exists>p. b = Some p \<and> truthy b \<and> w > 0")
    case True
    then obtain p where p: "b = Some p" "truthy b" "w > 0" by blast
    from best_profile_registered f p(1) obtain pd where
      pd: "map_of user_profiles p = Some pd" "(p, pd) \<in> set user_profiles" by blast
    from pd(2) registry_preferences have "length (preferences pd) = 3"
      by (auto simp: list_all_iff)
    moreover have "choose_profile bl = (Some p, preferences pd, description pd)"
      using f p pd(1) by (simp add: choose_profile_def)
    ultimately show ?thesis using assms by simp
  next
    case False
    then have "choose_profile bl = fallback_profile bl"
      using f by (auto simp: choose_profile_def split: option.splits)
    with assms fallback_preferences [of bl] show ?thesis by simp
  qed
qed

lemma choose_profile_undetermined:
  assumes "fst (choose_profile bl) = None"
  shows "choose_profile bl = (None, undetermined_preferences, descr_undetermined)"
proof -
  obtain b w where f: "find_best_profile (profile_scores_of bl) (None, 0) = (b, w)"
    by (cases "find_best_profile (profile_scores_of bl) (None, 0)")
  have "choose_profile bl = fallback_profile bl"
  proof (cases "\<exists>p. b = Some p \<and> truthy b \<and> w > 0")
    case True
    then obtain p where p: "b = Some p" "truthy b" "w > 0" by blast
    from best_profile_registered f p(1) obtain pd where
      pd: "map_of user_profiles p = Some pd" by blast
    have "choose_profile bl = (Some p, preferences pd, description pd)"
      using f p pd by (simp add: choose_profile_def)
    with assms show ?thesis by simp
  next
    case False
    then show ?thesis
      using f by (auto simp: choose_profile_def split: option.splits)
  qed
  with assms show ?thesis
    by (auto simp: fallback_profile_def undetermined_preferences_def split: if_splits)
qed

subsection \<open>The pool of candidates\<close>

lemma foldl_append_concat:
  "foldl (\<lambda>recs x. recs @ f x) acc xs = acc @ concat (map f xs)"
  by (induction xs arbitrary: acc) simp_all

lemma candidates_concat:
  "candidate_recommendations dp descr prefs cz =
     concat (map (\<lambda>i. recommend_from dp descr prefs cz i (prefs ! i)) [0..<length prefs])"
proof -
  have "candidate_recommendations dp descr prefs cz =
      concat (map (\<lambda>(i, cat). recommend_from dp descr prefs cz i cat) (enumerate 0 prefs))"
    unfolding candidate_recommendations_def
    using foldl_append_concat [of "\<lambda>(i, cat). recommend_from dp descr prefs cz i cat" "[]"]
    by (simp add: split_def)
  also have "map (\<lambda>(i, cat). recommend_from dp descr prefs cz i cat) (enumerate 0 prefs) =
      map (\<lambda>i. recommend_from dp descr prefs cz i (prefs ! i)) [0..<length prefs]"
    by (rule nth_equalityI) (simp_all add: nth_enumerate_eq)
  finally show ?thesis .
qed

lemma recommend_from_fields:
  assumes "r \<in> set (recommend_from dp descr prefs cz i cat)"
  shows "priority r = length prefs - i \<and> rec_category r = cat \<and> reason r = make_reason dp descr i"
  using assms by (auto simp: recommend_from_def Let_def make_recommendation_def)

lemma course_rebuilt:
  "\<lparr>name = name x, credits = credits x, hours = hours x, semester = semester x,
    course_type = course_type x\<rparr> = (x::course)"
  by (cases x) simp

lemma recommend_from_courses:
  "map course.truncate (recommend_from dp descr prefs cz i cat) =
     take (nat (max 1 (4 - int i))) (py_sort_reverse credits (electives_of cz cat))"
  by (simp add: recommend_from_def Let_def electives_of_def bucket_def comp_def
      make_recommendation_def course.truncate_def take_map [symmetric] course_rebuilt)

lemma recommend_from_categorized:
  assumes "cat \<in> set category_keys"
  shows "recommend_from dp descr prefs (categorize_subjects cu) i cat =
     map (\<lambda>subject. make_recommendation subject cat (make_reason dp descr i) (length prefs - i))
       (take (nat (max 1 (4 - int i)))
          (py_sort_reverse credits
             (filter (\<lambda>s. course_type s = s_elective)
                (filter (\<lambda>c. bucket_key c = cat) (all_courses cu)))))"
proof -
  have "(case map_of (categorize_subjects cu) cat of Some l \<Rightarrow> l | None \<Rightarrow> []) =
      filter (\<lambda>c. bucket_key c = cat) (all_courses cu)"
    using bucket_categorize_subjects [OF assms, of cu] by (simp add: bucket_def)
  then show ?thesis by (simp add: recommend_from_def Let_def)
qed

subsection \<open>The undetermined profile on concrete curricula\<close>

lemma scores_empty_text:
  "find_best_profile (profile_scores_of []) (None, 0) = (None, 0)"
  by (simp add: profile_scores_of_def user_profiles_def score_profile_def ascii_def)

lemma choose_profile_empty_text:
  "choose_profile [] = (None, undetermined_preferences, descr_undetermined)"
  by (simp add: choose_profile_def scores_empty_text fallback_profile_def any_in_def
      developer_words_def undetermined_preferences_def ascii_def)

lemma bucket_key_ml: "bucket_key course_ml = ascii ''machine_learning''"
  by (simp add: eval_bucket_key course_ml_def)

lemma bucket_key_py: "bucket_key course_py = ascii ''programming''"
  by (simp add: eval_bucket_key course_py_def)

lemma bucket_key_ml_course: "bucket_key (ml_course [c] cr ty) = ascii ''machine_learning''"
  by (simp add: eval_bucket_key ml_course_def)

lemma undetermined_keys:
  "ascii ''machine_learning'' \<in> set category_keys"
  "ascii ''programming'' \<in> set category_keys"
  "ascii ''data_science'' \<in> set category_keys"
  by (simp_all add: category_keys_def)

lemma undetermined_nth:
  "undetermined_preferences ! 0 = ascii ''machine_learning''"
  "undetermined_preferences ! Suc 0 = ascii ''programming''"
  "undetermined_preferences ! 2 = ascii ''data_science''"
  "length undetermined_preferences = 3"
  by (simp_all add: undetermined_preferences_def)

lemma keys_differ:
  "ascii ''machine_learning'' \<noteq> ascii ''programming''"
  "ascii ''machine_learning'' \<noteq> ascii ''data_science''"
  "ascii ''programming'' \<noteq> ascii ''machine_learning''"
  "ascii ''programming'' \<noteq> ascii ''data_science''"
  by (simp_all add: ascii_def)

lemma upt_3: "[0..<3] = [0, 1, 2]"
  by (simp add: upt_rec)

lemma candidates_undetermined:
  "candidate_recommendations None descr_undetermined undetermined_preferences cz =
     recommend_from None descr_undetermined undetermined_preferences cz 0 (ascii ''machine_learning'')
     @ recommend_from None descr_undetermined undetermined_preferences cz 1 (ascii ''programming'')
     @ recommend_from None descr_undetermined undetermined_preferences cz 2 (ascii ''data_science'')"
  unfolding candidates_concat undetermined_nth(4) upt_3
  by (simp add: undetermined_nth(1-3))

lemma reason_undetermined:
  "make_reason None descr 0 = reason_baseline @ reason_priority_area"
  "make_reason None descr (Suc 0) = reason_baseline"
  "make_reason None descr 2 = reason_baseline"
  by (simp_all add: make_reason_def truthy_def)

lemma candidates_two:
  "candidate_recommendations None descr_undetermined undetermined_preferences
     (categorize_subjects curriculum_two) =
   [make_recommendation course_ml (ascii ''machine_learning'')
      (reason_baseline @ reason_priority_area) 3,
    make_recommendation course_py (ascii ''programming'') reason_baseline 2]"
proof -
  have t: "course_type course_ml = s_elective" "course_type course_py = s_elective"
    by (simp_all add: course_ml_def course_py_def)
  have a: "all_courses curriculum_two = [course_ml, course_py]"
    by (simp add: curriculum_two_def empty_curriculum_def)
  have "recommend_from None descr_undetermined undetermined_preferences
      (categorize_subjects curriculum_two) 0 (ascii ''machine_learning'') =
      [make_recommendation course_ml (ascii ''machine_learning'')
         (reason_baseline @ reason_priority_area) 3]"
    unfolding recommend_from_categorized [OF undetermined_keys(1)] a
    by (simp add: bucket_key_ml bucket_key_py keys_differ t py_sort_reverse_def
        reason_undetermined undetermined_nth(4))
  moreover have "recommend_from None descr_undetermined undetermined_preferences
      (categorize_subjects curriculum_two) 1 (ascii ''programming'') =
      [make_recommendation course_py (ascii ''programming'') reason_baseline 2]"
    unfolding recommend_from_categorized [OF undetermined_keys(2)] a
    by (simp add: bucket_key_ml bucket_key_py keys_differ t py_sort_reverse_def
        reason_undetermined undetermined_nth(4))
  moreover have "recommend_from None descr_undetermined undetermined_preferences
      (categorize_subjects curriculum_two) 2 (ascii ''data_science'') = []"
    unfolding recommend_from_categorized [OF undetermined_keys(3)] a
    by (simp add: bucket_key_ml bucket_key_py keys_differ t py_sort_reverse_def)
  ultimately show ?thesis
    by (simp add: candidates_undetermined)
qed

lemma recommendations_two:
  "recommendations (generate_recommendations [] curriculum_two) =
   [make_recommendation course_ml (ascii ''machine_learning'')
      (reason_baseline @ reason_priority_area) 3,
    make_recommendation course_py (ascii ''programming'') reason_baseline 2]"
  by (simp add: recommendations_eq lower_def choose_profile_empty_text candidates_two
      py_sort_reverse_def make_recommendation_def)

lemma undetermined_two: "dominant_profile_key (generate_recommendations [] curriculum_two) = None"
  by (simp add: dominant_profile_key_eq lower_def choose_profile_empty_text)

lemma set_py_sort_reverse: "set (py_sort_reverse key xs) = set xs"
  by (simp add: py_sort_reverse_def)

text \<open>
  Claim C1, as the code has it. When the classified profile is undetermined, every
  recommendation comes from a preference position \<open>i < 3\<close>, has priority \<open>3 - i\<close>
  and the category of that position, and its reason is the baseline string for
  \<open>i > 0\<close> and the baseline string followed by the priority-area suffix for
  \<open>i = 0\<close>: the suffix is appended at position 0 whatever the profile is.
\<close>

theorem C1_undetermined_reason:
  assumes "dominant_profile_key (generate_recommendations bio cu) = None"
  shows "\<forall>r \<in> set (recommendations (generate_recommendations bio cu)).
           \<exists>i < 3. priority r = 3 - i \<and> rec_category r = undetermined_preferences ! i
             \<and> reason r = (if i = 0 then reason_baseline @ reason_priority_area
                           else reason_baseline)"
proof
  fix r
  assume r: "r \<in> set (recommendations (generate_recommendations bio cu))"
  let ?cz = "categorize_subjects cu"
  let ?from = "recommend_from None descr_undetermined undetermined_preferences ?cz"
  have c: "choose_profile (lower bio) = (None, undetermined_preferences, descr_undetermined)"
    using assms by (simp add: dominant_profile_key_eq choose_profile_undetermined)
  have "set (recommendations (generate_recommendations bio cu)) \<subseteq>
      set (py_sort_reverse (\<lambda>x. (priority x, credits x))
             (candidate_recommendations None descr_undetermined undetermined_preferences ?cz))"
    by (simp add: recommendations_eq c set_take_subset)
  then have "set (recommendations (generate_recommendations bio cu)) \<subseteq>
      set (candidate_recommendations None descr_undetermined undetermined_preferences ?cz)"
    by (simp only: set_py_sort_reverse)
  with r have "r \<in> set (?from 0 (ascii ''machine_learning''))
      \<or> r \<in> set (?from (Suc 0) (ascii ''programming''))
      \<or> r \<in> set (?from 2 (ascii ''data_science''))"
    by (auto simp: candidates_undetermined)
  then consider (a) "r \<in> set (?from 0 (undetermined_preferences ! 0))"
    | (b) "r \<in> set (?from (Suc 0) (undetermined_preferences ! Suc 0))"
    | (c) "r \<in> set (?from 2 (undetermined_preferences ! 2))"
    by (auto simp: undetermined_nth)
  then show "\<exists>i < 3. priority r = 3 - i \<and> rec_category r = undetermined_preferences ! i
             \<and> reason r = (if i = 0 then reason_baseline @ reason_priority_area
                           else reason_baseline)"
  proof cases
    case a
    from recommend_from_fields [OF a] show ?thesis
      by (intro exI [of _ 0]) (simp add: undetermined_nth(4) reason_undetermined)
  next
    case b
    from recommend_from_fields [OF b] show ?thesis
      by (intro exI [of _ "Suc 0"]) (simp add: undetermined_nth(4) reason_undetermined)
  next
    case c
    from recommend_from_fields [OF c] show ?thesis
      by (intro exI [of _ 2]) (simp add: undetermined_nth(4) reason_undetermined)
  qed
qed

lemma baseline_differs: "reason_baseline @ reason_priority_area \<noteq> reason_baseline"
  by (simp add: reason_priority_area_def)

text \<open>
  With an empty biography the profile is undetermined, and the recommendation taken
  from the first preference does not have the baseline string as its reason.
\<close>

theorem C1_counterexample:
  "dominant_profile_key (generate_recommendations [] curriculum_two) = None
   \<and> map reason (recommendations (generate_recommendations [] curriculum_two)) =
       [reason_baseline @ reason_priority_area, reason_baseline]
   \<and> reason_baseline @ reason_priority_area \<noteq> reason_baseline"
  by (simp add: undetermined_two recommendations_two make_recommendation_def
      reason_priority_area_def)

theorem C1_undetermined_reason_witness:
  "dominant_profile_key (generate_recommendations [] curriculum_two) = None
   \<and> map (\<lambda>r. (priority r, reason r)) (recommendations (generate_recommendations [] curriculum_two)) =
       [(3, reason_baseline @ reason_priority_area), (2, reason_baseline)]"
  using C1_undetermined_reason [OF undetermined_two]
  by (simp add: undetermined_two recommendations_two make_recommendation_def)

theorem C6_bounded_sorted_witness:
  "length (recommendations (generate_recommendations [] curriculum_two)) = 2
   \<and> map (\<lambda>r. (priority r, credits r)) (recommendations (generate_recommendations [] curriculum_two)) =
       [(3, 5), (2, 4)]"
  using C6_bounded_sorted [of "[]" curriculum_two]
  by (simp add: recommendations_two make_recommendation_def course_ml_def course_py_def)

lemma py_sort_reverse_stable_desc:
  "stable_desc_sort key xs (py_sort_reverse key xs)"
  by (simp add: stable_desc_sort_def py_sort_reverse_mset py_sort_reverse_sorted
      py_sort_reverse_stable)

text \<open>
  Claim C7. The preference list has 3 positions. The pool of candidates is the
  concatenation, over the positions \<open>i < 3\<close>, of what the loop body emits for the
  category at position \<open>i\<close>, and the returned list is the first 10 of the pool
  sorted by (priority, credits). For each position the courses emitted are the
  first \<open>max 1 (4 - i)\<close> of the elective courses of the category's bucket in the
  stable descending order of credits, and each emitted recommendation has priority
  (length of the preference list) \<open>- i\<close> and the category of the position.
\<close>

theorem C7_per_category:
  assumes "choose_profile (lower bio) = (dp, prefs, descr)"
  shows "length prefs = 3
    \<and> candidate_recommendations dp descr prefs (categorize_subjects cu) =
        concat (map (\<lambda>i. recommend_from dp descr prefs (categorize_subjects cu) i (prefs ! i))
                  [0..<3])
    \<and> recommendations (generate_recommendations bio cu) =
        take 10 (py_sort_reverse (\<lambda>x. (priority x, credits x))
                   (candidate_recommendations dp descr prefs (categorize_subjects cu)))
    \<and> (\<forall>i < 3.
          stable_desc_sort credits (electives_of (categorize_subjects cu) (prefs ! i))
            (py_sort_reverse credits (electives_of (categorize_subjects cu) (prefs ! i)))
          \<and> map course.truncate
                (recommend_from dp descr prefs (categorize_subjects cu) i (prefs ! i)) =
              take (max 1 (4 - i))
                (py_sort_reverse credits (electives_of (categorize_subjects cu) (prefs ! i)))
          \<and> (\<forall>r \<in> set (recommend_from dp descr prefs (categorize_subjects cu) i (prefs ! i)).
                priority r = length prefs - i \<and> rec_category r = prefs ! i))"
proof -
  have l: "length prefs = 3" using assms by (rule choose_profile_preferences)
  have lim: "nat (max 1 (4 - int i)) = max 1 (4 - i)" "nat (4 - int i) = 4 - i" for i :: nat
    by arith+
  show ?thesis
    using l
    by (simp add: candidates_concat recommendations_eq assms py_sort_reverse_stable_desc
        recommend_from_courses lim recommend_from_fields)
qed

lemma ml_course_fields:
  "credits (ml_course s cr ty) = cr" "course_type (ml_course s cr ty) = ty"
  "name (ml_course s cr ty) = ascii ''ML '' @ ascii s"
  by (simp_all add: ml_course_def)

lemma electives_six:
  "electives_of (categorize_subjects curriculum_six) (ascii ''machine_learning'') =
     [ml_course ''a'' 6 s_elective, ml_course ''b'' 8 s_elective, ml_course ''c'' 6 s_elective,
      ml_course ''d'' 2 s_elective, ml_course ''e'' 4 s_elective]"
proof -
  have "s_mandatory \<noteq> s_elective" by (simp add: s_mandatory_def s_elective_def ascii_def)
  then show ?thesis
    by (simp add: electives_of_def bucket_categorize_subjects undetermined_keys curriculum_six_def
        empty_curriculum_def bucket_key_ml_course ml_course_fields)
qed

theorem C7_per_category_witness:
  "map (\<lambda>c. (name c, credits c))
     (map course.truncate
        (recommend_from None descr_undetermined undetermined_preferences
           (categorize_subjects curriculum_six) 0 (ascii ''machine_learning''))) =
   [(ascii ''ML b'', 8), (ascii ''ML a'', 6), (ascii ''ML c'', 6), (ascii ''ML e'', 4)]"
proof -
  have c: "choose_profile (lower []) = (None, undetermined_preferences, descr_undetermined)"
    by (simp add: lower_def choose_profile_empty_text)
  from C7_per_category [OF c, of curriculum_six]
  have "map course.truncate
      (recommend_from None descr_undetermined undetermined_preferences
         (categorize_subjects curriculum_six) 0 (undetermined_preferences ! 0)) =
      take (max 1 (4 - 0))
        (py_sort_reverse credits
           (electives_of (categorize_subjects curriculum_six) (undetermined_preferences ! 0)))"
    by simp
  then show ?thesis
    unfolding undetermined_nth electives_six
    by (simp add: py_sort_reverse_def ml_course_fields) (simp add: ascii_def)
qed

end
